theory Spec2Isabelle
  imports Complex_Main "HOL-Library.Log_Nat"
begin

section \<open>Python strings\<close>

text \<open>
  The string operations the scanner uses, on \<^typ>\<open>string\<close>: \<^verbatim>\<open>s.startswith(p)\<close>, the
  substring test \<^verbatim>\<open>a in b\<close>, \<^verbatim>\<open>s.split('\n')\<close>, \<^verbatim>\<open>'\n'.join(ls)\<close> and the slice
  \<^verbatim>\<open>s[1:]\<close>.
\<close>

fun startswith :: "string \<Rightarrow> string \<Rightarrow> bool" where
  "startswith s [] = True"
| "startswith [] (p # ps) = False"
| "startswith (c # cs) (p # ps) = (c = p \<and> startswith cs ps)"

fun str_in :: "string \<Rightarrow> string \<Rightarrow> bool" where
  "str_in a [] = (a = [])"
| "str_in a (c # cs) = (startswith (c # cs) a \<or> str_in a cs)"

fun split_nl :: "string \<Rightarrow> string list" where
  "split_nl [] = [[]]"
| "split_nl (c # cs) =
     (if c = CHR 0x0A then [] # split_nl cs
      else (case split_nl cs of
              [] \<Rightarrow> [[c]]
            | l # ls \<Rightarrow> (c # l) # ls))"

fun join_nl :: "string list \<Rightarrow> string" where
  "join_nl [] = []"
| "join_nl [l] = l"
| "join_nl (l # l' # ls) = l @ CHR 0x0A # join_nl (l' # ls)"

definition slice_from_1 :: "string \<Rightarrow> string" where
  "slice_from_1 s = drop 1 s"

section \<open>GitRepository\<close>

text \<open>
  The version-control backend is a library outside the program. A commit is modelled by
  what the scanner reads from it: the author's name, the parents, the outcome of reading
  \<^verbatim>\<open>commit.stats\<close> (\<open>None\<close> when the read raises), and the outcomes of the two diff
  requests \<^verbatim>\<open>commit.parents[0].diff(commit, create_patch=True)\<close> and
  \<^verbatim>\<open>commit.diff(git.NULL_TREE, create_patch=True)\<close>: \<open>None\<close> when the request raises,
  otherwise the patch bytes \<^verbatim>\<open>item.diff\<close> of every item, the empty string standing for an
  item without a patch.
\<close>

record commit_stats =
  insertions :: int
  deletions :: int
  lines :: int
  files :: int

record commit =
  author_name :: string
  parents :: "string list"
  stats :: "commit_stats option"
  diff_first_parent :: "string list option"
  diff_null_tree :: "string list option"

type_synonym commits_by_author = "string \<rightharpoonup> commit list"

definition append_commit :: "commits_by_author \<Rightarrow> string \<Rightarrow> commit \<Rightarrow> commits_by_author" where
  "append_commit m name c = m(name \<mapsto> (case m name of None \<Rightarrow> [] | Some cs \<Rightarrow> cs) @ [c])"

text \<open>The inner loop over the target authors, left at the first match (\<^verbatim>\<open>break\<close>).\<close>

fun assign_commit :: "string list \<Rightarrow> commit \<Rightarrow> commits_by_author \<Rightarrow> commits_by_author" where
  "assign_commit [] c m = m"
| "assign_commit (target_author # rest) c m =
     (if str_in target_author (author_name c) \<or> str_in (author_name c) target_author
      then append_commit m (author_name c) c
      else assign_commit rest c m)"

fun commits_loop :: "string list \<Rightarrow> commit list \<Rightarrow> commits_by_author \<Rightarrow> commits_by_author" where
  "commits_loop authors [] m = m"
| "commits_loop authors (c # cs) m = commits_loop authors cs (assign_commit authors c m)"

text \<open>
  \<^verbatim>\<open>get_commits_by_author_and_time\<close>: the first argument is the repository seen through
  \<^verbatim>\<open>iter_commits(since, until)\<close>: \<open>None\<close> when no repository is loaded, otherwise the commits
  of the date window in the order the backend yields them.
\<close>

definition get_commits_by_author_and_time :: "commit list option \<Rightarrow> string list \<Rightarrow> commits_by_author" where
  "get_commits_by_author_and_time repo authors =
     (case repo of
        None \<Rightarrow> Map.empty
      | Some window \<Rightarrow> commits_loop authors window Map.empty)"

definition get_diff_stats :: "commit \<Rightarrow> int \<times> int \<times> int" where
  "get_diff_stats c =
     (case stats c of
        None \<Rightarrow> (0, 0, 0)
      | Some s \<Rightarrow> (insertions s, deletions s, lines s))"

text \<open>
  \<^verbatim>\<open>get_commit_diff_content\<close>. The parameter \<open>decode\<close> is the library's
  \<^verbatim>\<open>bytes.decode('utf-8', errors='ignore')\<close>. Any exception inside the \<^verbatim>\<open>try\<close> gives the
  empty list.
\<close>

definition get_commit_diff_content :: "(string \<Rightarrow> string) \<Rightarrow> commit \<Rightarrow> string list" where
  "get_commit_diff_content decode c =
     (case (if parents c \<noteq> [] then diff_first_parent c else diff_null_tree c) of
        None \<Rightarrow> []
      | Some diff \<Rightarrow>
          concat (map (\<lambda>item. if item \<noteq> [] then split_nl (decode item) else []) diff))"

section \<open>CodeQualityAnalyzer: the structural analysis\<close>

text \<open>
  The syntax tree is the one \<^verbatim>\<open>ast.parse\<close> returns; a node is its class, as far as the
  analyzer tells classes apart, and its child nodes in the order of
  \<^verbatim>\<open>ast.iter_child_nodes\<close>.
\<close>

datatype node_kind = FunctionDef | For | While | IfStmt | Try | ExceptHandler | Other

datatype ast = Node node_kind "ast list"

fun kind :: "ast \<Rightarrow> node_kind" where
  "kind (Node k cs) = k"

fun iter_child_nodes :: "ast \<Rightarrow> ast list" where
  "iter_child_nodes (Node k cs) = cs"

fun node_count :: "ast \<Rightarrow> nat" where
  "node_count (Node k cs) = Suc (sum_list (map node_count cs))"

text \<open>\<^verbatim>\<open>ast.walk\<close>: breadth first, from a queue of nodes still to visit.\<close>

function walk_queue :: "ast list \<Rightarrow> ast list" where
  "walk_queue [] = []"
| "walk_queue (n # todo) = n # walk_queue (todo @ iter_child_nodes n)"
  by pat_completeness auto
termination
proof (relation "measure (\<lambda>todo. sum_list (map node_count todo))")
  show "wf (measure (\<lambda>todo. sum_list (map node_count todo)))" by simp
next
  fix n todo
  show "(todo @ iter_child_nodes n, n # todo) \<in> measure (\<lambda>todo. sum_list (map node_count todo))"
    by (cases n) simp
qed

definition walk :: "ast \<Rightarrow> ast list" where
  "walk node = walk_queue [node]"

definition calculate_complexity :: "ast \<Rightarrow> int" where
  "calculate_complexity node =
     1 + int (length (filter (\<lambda>child. kind child \<in> {IfStmt, For, While, Try, ExceptHandler}) (walk node)))"

text \<open>
  \<^verbatim>\<open>_calculate_nesting_depth\<close> calls itself once for every level of nested statements.
  The first argument is the number of nested activations of it that the interpreter still
  admits; where the recursion needs one more, the interpreter raises \<^verbatim>\<open>RecursionError\<close>,
  which is the result \<open>None\<close> and ends the loop over the children.
\<close>

fun calculate_nesting_depth :: "nat \<Rightarrow> ast \<Rightarrow> int \<Rightarrow> int option" where
  "calculate_nesting_depth 0 node depth = None"
| "calculate_nesting_depth (Suc frames) (Node k cs) depth =
     fold (\<lambda>child max_depth.
             case max_depth of
               None \<Rightarrow> None
             | Some m \<Rightarrow>
                 if kind child \<in> {For, While, IfStmt, Try}
                 then (case calculate_nesting_depth frames child (depth + 1) of
                         None \<Rightarrow> None
                       | Some child_depth \<Rightarrow> Some (max m child_depth))
                 else Some m)
          cs (Some depth)"

datatype parse_result = Parsed ast | SyntaxError | OtherError

datatype syntax_issue = HighComplexityFunction | DeepNesting | SyntaxErrorIssue

type_synonym 'k tally = "'k \<rightharpoonup> int"

text \<open>\<^verbatim>\<open>issues[key] += 1\<close> on a \<^verbatim>\<open>defaultdict(int)\<close>.\<close>

definition increment :: "'k tally \<Rightarrow> 'k \<Rightarrow> 'k tally" where
  "increment issues key = issues(key \<mapsto> (case issues key of None \<Rightarrow> 0 | Some n \<Rightarrow> n) + 1)"

text \<open>
  The loop of \<^verbatim>\<open>analyze_python_syntax\<close> over the nodes of the walk. It returns the tally
  as it stands when the loop ends, and whether the loop ended by a \<^verbatim>\<open>RecursionError\<close> of
  the nesting-depth recursion.
\<close>

fun check_nodes :: "nat \<Rightarrow> ast list \<Rightarrow> syntax_issue tally \<Rightarrow> syntax_issue tally \<times> bool" where
  "check_nodes frames [] issues = (issues, False)"
| "check_nodes frames (node # rest) issues =
     (let issues1 =
            (if kind node = FunctionDef \<and> calculate_complexity node > 10
             then increment issues HighComplexityFunction else issues)
      in if kind node \<in> {For, While, IfStmt} then
           (case calculate_nesting_depth frames node 0 of
              None \<Rightarrow> (issues1, True)
            | Some depth \<Rightarrow>
                check_nodes frames rest
                  (if depth > 3 then increment issues1 DeepNesting else issues1))
         else check_nodes frames rest issues1)"

text \<open>
  \<^verbatim>\<open>analyze_python_syntax\<close>. The parameter \<open>parse\<close> is \<^verbatim>\<open>ast.parse\<close> with its outcome:
  the tree, a \<^verbatim>\<open>SyntaxError\<close>, or any other exception. One \<^verbatim>\<open>try\<close> holds the parse and
  the walk: a \<^verbatim>\<open>SyntaxError\<close> counts one syntax error, any other exception is passed
  over, and in both cases the tally as it stands is returned.
\<close>

definition analyze_python_syntax ::
  "(string \<Rightarrow> parse_result) \<Rightarrow> nat \<Rightarrow> string \<Rightarrow> syntax_issue tally" where
  "analyze_python_syntax parse recursion_limit code_content =
     (case parse code_content of
        Parsed tree \<Rightarrow> fst (check_nodes recursion_limit (walk tree) Map.empty)
      | SyntaxError \<Rightarrow> increment Map.empty SyntaxErrorIssue
      | OtherError \<Rightarrow> Map.empty)"

text \<open>
  Syntax trees used as examples: \<open>elif_chain n\<close> is the tree of \<^verbatim>\<open>if 0: pass\<close> followed by
  \<open>n\<close> branches \<^verbatim>\<open>elif 0: pass\<close> (an \<^verbatim>\<open>If\<close> node holds its test, its body and, as its
  \<^verbatim>\<open>orelse\<close>, the \<^verbatim>\<open>If\<close> node of the next branch); \<open>branching_function\<close> is a function
  definition without parameters whose body is ten statements \<^verbatim>\<open>if 0: pass\<close>;
  \<open>deep_module\<close> is the module of that function followed by a chain of 1100 branches, and
  \<open>deep_source\<close> is its source text (\<open>deep_source_rest\<close> the lines after the first).
\<close>

fun elif_chain :: "nat \<Rightarrow> ast" where
  "elif_chain 0 = Node IfStmt [Node Other [], Node Other []]"
| "elif_chain (Suc n) = Node IfStmt [Node Other [], Node Other [], elif_chain n]"

definition branching_function :: ast where
  "branching_function = Node FunctionDef (Node Other [] # replicate 10 (elif_chain 0))"

definition deep_module :: ast where
  "deep_module = Node Other [branching_function, elif_chain 1100]"

definition deep_source_rest :: string where
  "deep_source_rest =
     concat (replicate 10 (''    if 0: pass'' @ [CHR 0x0A]))
     @ ''if 0: pass'' @ [CHR 0x0A]
     @ concat (replicate 1100 (''elif 0: pass'' @ [CHR 0x0A]))"

definition deep_source :: string where
  "deep_source = ''def f():'' @ [CHR 0x0A] @ deep_source_rest"

section \<open>CodeQuantityAnalyzer\<close>

record quantity_metrics =
  commit_count :: int
  added_lines :: int
  deleted_lines :: int
  net_lines :: int
  files_changed :: int
  total_changed_lines :: int

text \<open>
  The loop of \<^verbatim>\<open>analyze_commit_quantity\<close> over the running totals
  (insertions, deletions, files changed); a commit whose stats cannot be read is skipped.
\<close>

fun quantity_loop :: "commit list \<Rightarrow> int \<times> int \<times> int \<Rightarrow> int \<times> int \<times> int" where
  "quantity_loop [] totals = totals"
| "quantity_loop (c # cs) (total_insertions, total_deletions, total_files_changed) =
     (case stats c of
        None \<Rightarrow> quantity_loop cs (total_insertions, total_deletions, total_files_changed)
      | Some s \<Rightarrow>
          quantity_loop cs
            (total_insertions + insertions s,
             total_deletions + deletions s,
             total_files_changed + files s))"

definition analyze_commit_quantity :: "commit list \<Rightarrow> quantity_metrics" where
  "analyze_commit_quantity commits =
     (case quantity_loop commits (0, 0, 0) of
        (total_insertions, total_deletions, total_files_changed) \<Rightarrow>
          \<lparr>commit_count = int (length commits),
           added_lines = total_insertions,
           deleted_lines = total_deletions,
           net_lines = total_insertions - total_deletions,
           files_changed = total_files_changed,
           total_changed_lines = total_insertions + total_deletions\<rparr>)"

section \<open>Numbers of the metrics calculator\<close>

text \<open>
  The calculator of \<^verbatim>\<open>code_quality_scanner.py\<close> works on Python numbers: issue and line
  counts are unbounded integers (\<^typ>\<open>int\<close>), scores are floats. A float is modelled by
  the rational number it denotes (\<^typ>\<open>rat\<close>).

  The quality metrics are computed in binary64 arithmetic: the true division of two
  integers and every operation on floats give the exact result rounded to the nearest
  double, ties going to the even mantissa (\<open>binary64\<close>; \<open>binade\<close> is the exponent of the
  power of two at or below a positive number, and a double has 53 significant bits). The
  exponent range is not bounded in the model: for counts below \<open>2 ^ 1000\<close> no result that
  is not 0 leaves the normal range of binary64.

  \<^verbatim>\<open>round(x, 2)\<close> rounds the exact value of the float \<open>x\<close> to the nearest multiple of
  1/100, ties going to the even multiple, and returns the double nearest to that multiple;
  \<open>py_round2\<close> gives the multiple of 1/100 itself, which names that double. The quantity
  score compares the exact ratio with its thresholds, and the final score rounds the exact
  weighted sum.
\<close>

definition round_half_even :: "rat \<Rightarrow> int" where
  "round_half_even x =
     (let f = \<lfloor>x\<rfloor>; d = x - of_int f
      in if d < 1 / 2 then f
         else if 1 / 2 < d then f + 1
         else if even f then f else f + 1)"

definition py_round2 :: "rat \<Rightarrow> rat" where
  "py_round2 x = of_int (round_half_even (x * 100)) / 100"

definition binade :: "rat \<Rightarrow> int" where
  "binade a = (if 1 \<le> a then bitlen \<lfloor>a\<rfloor> - 1 else - bitlen (\<lceil>1 / a\<rceil> - 1))"

definition round_to_double :: "rat \<Rightarrow> rat" where
  "round_to_double a =
     (let ulp = 2 powi (binade a - 52)
      in of_int (round_half_even (a / ulp)) * ulp)"

definition binary64 :: "rat \<Rightarrow> rat" where
  "binary64 x =
     (if x = 0 then 0
      else if 0 < x then round_to_double x
      else - round_to_double (- x))"

section \<open>MetricsCalculator\<close>

record quality_metrics =
  issues_per_kloc :: rat
  issue_rate_per_kloc :: rat
  quality_score :: rat

definition calculate_quality_metrics :: "int \<Rightarrow> int \<Rightarrow> quality_metrics" where
  "calculate_quality_metrics total_issues total_lines =
     (if total_lines = 0 then
        \<lparr>issues_per_kloc = 0, issue_rate_per_kloc = 0, quality_score = 100\<rparr>
      else
        let ipk = binary64 (binary64 (of_int total_issues / of_int total_lines) * 1000);
            rate = binary64 (binary64 (of_int total_issues / of_int total_lines) * 1000);
            q = max 0 (binary64 (100 - binary64 (ipk * 2)))
        in \<lparr>issues_per_kloc = py_round2 ipk,
            issue_rate_per_kloc = py_round2 rate,
            quality_score = py_round2 q\<rparr>)"

definition calculate_quantity_score :: "int \<Rightarrow> rat \<Rightarrow> rat" where
  "calculate_quantity_score total_lines avg_lines =
     (if avg_lines = 0 then 50
      else
        let ratio = of_int total_lines / avg_lines
        in if ratio \<ge> 2 then 100
           else if ratio \<ge> 3 / 2 then 90
           else if ratio \<ge> 1 then 80
           else if ratio \<ge> 4 / 5 then 70
           else if ratio \<ge> 3 / 5 then 60
           else if ratio \<ge> 2 / 5 then 50
           else if ratio \<ge> 1 / 5 then 40
           else 30)"

definition calculate_final_score :: "rat \<Rightarrow> rat \<Rightarrow> rat" where
  "calculate_final_score quality quantity =
     py_round2 (quality * (4 / 5) + quantity * (1 / 5))"

section \<open>CodeQualityScanner: the aggregation\<close>

text \<open>
  The added lines of one commit, as \<^verbatim>\<open>_analyze_author_code\<close> filters them out of the diff
  content: the lines that start with \<^verbatim>\<open>+\<close> but not with \<^verbatim>\<open>+++\<close>, without their first
  character; and the lines of all commits of an author, in order.
\<close>

definition new_lines :: "(string \<Rightarrow> string) \<Rightarrow> commit \<Rightarrow> string list" where
  "new_lines decode c =
     map slice_from_1
       (filter (\<lambda>line. startswith line ''+'' \<and> \<not> startswith line ''+++'')
          (get_commit_diff_content decode c))"

definition all_code_lines :: "(string \<Rightarrow> string) \<Rightarrow> commit list \<Rightarrow> string list" where
  "all_code_lines decode commits = concat (map (new_lines decode) commits)"

datatype issue_type =
  DeadCode | DuplicateCode | SecurityHole | PerformanceBottleneck | StyleConsistency | MissingComment

definition sum_quality_issues :: "issue_type tally \<Rightarrow> int" where
  "sum_quality_issues issues =
     sum_list (map (\<lambda>k. case issues k of None \<Rightarrow> 0 | Some n \<Rightarrow> n)
       [DeadCode, DuplicateCode, SecurityHole, PerformanceBottleneck, StyleConsistency, MissingComment])"

definition sum_syntax_issues :: "syntax_issue tally \<Rightarrow> int" where
  "sum_syntax_issues issues =
     sum_list (map (\<lambda>k. case issues k of None \<Rightarrow> 0 | Some n \<Rightarrow> n)
       [HighComplexityFunction, DeepNesting, SyntaxErrorIssue])"

definition python_code :: "string list \<Rightarrow> string" where
  "python_code code_lines =
     join_nl (filter (\<lambda>line. list_ex (\<lambda>keyword. str_in keyword line) [''def '', ''class '', ''import ''])
                code_lines)"

record score_record =
  contributor :: string
  commits_made :: int
  changed_lines :: int
  total_issues :: int
  issues_per_kloc_r :: rat
  issue_rate_per_kloc_r :: rat
  quality_score_r :: rat
  quantity_score_r :: rat
  final_score_r :: rat

text \<open>
  \<^verbatim>\<open>_analyze_author_code\<close>. The pattern scan \<^verbatim>\<open>analyze_code_content\<close> runs the regular
  expression engine over the lines it is given; it is the parameter \<open>analyze_code_content\<close>.
  The parameters \<open>parse\<close> and \<open>recursion_limit\<close> are those of the structural analysis.
\<close>

definition analyze_author_code ::
  "(string list \<Rightarrow> issue_type tally) \<Rightarrow> (string \<Rightarrow> parse_result) \<Rightarrow> nat \<Rightarrow>
   (string \<Rightarrow> string) \<Rightarrow> string \<Rightarrow> commit list \<Rightarrow> score_record" where
  "analyze_author_code analyze_code_content parse recursion_limit decode author commits =
     (let quantity = analyze_commit_quantity commits;
          code_lines = all_code_lines decode commits;
          issues =
            (if code_lines \<noteq> [] then
               let found = sum_quality_issues (analyze_code_content code_lines);
                   py = python_code code_lines
               in if py \<noteq> [] then found + sum_syntax_issues (analyze_python_syntax parse recursion_limit py)
                  else found
             else 0);
          total = total_changed_lines quantity;
          quality = calculate_quality_metrics issues total
      in \<lparr>contributor = author,
          commits_made = commit_count quantity,
          changed_lines = total,
          total_issues = issues,
          issues_per_kloc_r = issues_per_kloc quality,
          issue_rate_per_kloc_r = issue_rate_per_kloc quality,
          quality_score_r = quality_score quality,
          quantity_score_r = 0,
          final_score_r = 0\<rparr>)"

text \<open>The second pass of \<^verbatim>\<open>run_analysis\<close>: the cohort average, then both scores of every record.\<close>

definition average_lines :: "score_record list \<Rightarrow> rat" where
  "average_lines results =
     (if results \<noteq> [] then of_int (sum_list (map changed_lines results)) / of_nat (length results)
      else 0)"

definition update_scores :: "score_record list \<Rightarrow> score_record list" where
  "update_scores results =
     (let avg_lines = average_lines results
      in map (\<lambda>r. let quantity = calculate_quantity_score (changed_lines r) avg_lines
                   in r\<lparr>quantity_score_r := quantity,
                        final_score_r := calculate_final_score (quality_score_r r) quantity\<rparr>)
           results)"

section \<open>Rounding to two decimals\<close>

lemma round_half_even_between:
  "\<lfloor>x\<rfloor> \<le> round_half_even x" "round_half_even x \<le> \<lfloor>x\<rfloor> + 1"
  unfolding round_half_even_def Let_def by auto

lemma round_half_even_upper: "of_int (round_half_even x) - x \<le> 1 / 2"
  unfolding round_half_even_def Let_def by (auto; linarith)

lemma round_half_even_lower: "x - of_int (round_half_even x) \<le> 1 / 2"
  unfolding round_half_even_def Let_def by (auto; linarith)

lemma round_half_even_mono:
  assumes "x \<le> y"
  shows "round_half_even x \<le> round_half_even y"
proof (cases "\<lfloor>x\<rfloor> = \<lfloor>y\<rfloor>")
  case True
  then show ?thesis using assms unfolding round_half_even_def Let_def by auto
next
  case False
  moreover have "\<lfloor>x\<rfloor> \<le> \<lfloor>y\<rfloor>" using assms by (rule floor_mono)
  ultimately have "\<lfloor>x\<rfloor> + 1 \<le> \<lfloor>y\<rfloor>" by simp
  then show ?thesis
    using round_half_even_between(2)[of x] round_half_even_between(1)[of y] by linarith
qed

lemma round_half_even_of_int: "round_half_even (of_int k) = k"
  unfolding round_half_even_def Let_def by simp

lemma py_round2_mono: "x \<le> y \<Longrightarrow> py_round2 x \<le> py_round2 y"
  unfolding py_round2_def
  by (simp add: round_half_even_mono divide_right_mono mult_right_mono)

lemma py_round2_near: "\<bar>py_round2 x - x\<bar> \<le> 1 / 200"
proof -
  define r where "r = (of_int (round_half_even (x * 100)) :: rat)"
  have "r - x * 100 \<le> 1 / 2" "x * 100 - r \<le> 1 / 2"
    unfolding r_def by (rule round_half_even_upper, rule round_half_even_lower)
  moreover have "py_round2 x = r / 100"
    unfolding py_round2_def r_def by (rule refl)
  ultimately show ?thesis by linarith
qed

lemma py_round2_hundredths: "\<exists>k::int. py_round2 x = of_int k / 100"
  unfolding py_round2_def by blast

lemma py_round2_of_int: "py_round2 (of_int k) = of_int k"
proof -
  have "round_half_even (of_int k * 100) = k * 100"
    using round_half_even_of_int[of "k * 100"] by simp
  then show ?thesis unfolding py_round2_def by simp
qed

lemma py_round2_0: "py_round2 0 = 0"
  using py_round2_of_int[of 0] by simp

lemma py_round2_100: "py_round2 100 = 100"
  using py_round2_of_int[of 100] by simp

lemma py_round2_range: "0 \<le> x \<Longrightarrow> x \<le> 100 \<Longrightarrow> 0 \<le> py_round2 x \<and> py_round2 x \<le> 100"
  using py_round2_mono[of 0 x] py_round2_mono[of x 100] by (simp add: py_round2_0 py_round2_100)

section \<open>Rounding to the nearest double\<close>

lemma binade_bounds:
  assumes "0 < a"
  shows "2 powi binade a \<le> a" and "a < 2 powi (binade a + 1)"
proof -
  have "2 powi binade a \<le> a \<and> a < 2 powi (binade a + 1)"
  proof (cases "1 \<le> a")
    case True
    define n where "n = \<lfloor>a\<rfloor>"
    have n: "0 < n" using True by (simp add: n_def)
    have b: "2 ^ nat (bitlen n - 1) \<le> n" "n < 2 ^ nat (bitlen n)"
      using bitlen_bounds[OF n] by simp_all
    have b1: "1 \<le> bitlen n" using n by (simp add: bitlen_alt_def)
    have e: "binade a = bitlen n - 1" using True by (simp add: binade_def n_def)
    have "(2::rat) powi (bitlen n - 1) = of_int (2 ^ nat (bitlen n - 1))"
      using b1 by (simp add: power_int_nonneg_exp)
    also have "\<dots> \<le> of_int n" using b(1) by (simp only: of_int_le_iff)
    also have "\<dots> \<le> a" using floor_correct[of a] by (simp add: n_def)
    finally have lo: "2 powi binade a \<le> a" by (simp add: e)
    have "n + 1 \<le> 2 ^ nat (bitlen n)" using b(2) by simp
    then have "(of_int (n + 1) :: rat) \<le> of_int (2 ^ nat (bitlen n))"
      by (simp only: of_int_le_iff)
    moreover have "a < of_int (n + 1)" using floor_correct[of a] by (simp add: n_def)
    moreover have "(2::rat) powi (bitlen n - 1 + 1) = of_int (2 ^ nat (bitlen n))"
      using b1 by (simp add: power_int_nonneg_exp)
    ultimately have hi: "a < 2 powi (binade a + 1)" by (simp add: e)
    from lo hi show ?thesis ..
  next
    case False
    define y where "y = 1 / a"
    define m where "m = \<lceil>y\<rceil> - 1"
    have y1: "1 < y" using False assms by (simp add: y_def)
    have m: "0 < m" using y1 by (simp add: m_def less_ceiling_iff)
    have b: "2 ^ nat (bitlen m - 1) \<le> m" "m < 2 ^ nat (bitlen m)"
      using bitlen_bounds[OF m] by simp_all
    have b1: "1 \<le> bitlen m" using m by (simp add: bitlen_alt_def)
    have e: "binade a = - bitlen m" using False by (simp add: binade_def m_def y_def)
    have ym: "of_int m < y" "y \<le> of_int m + 1"
      using ceiling_correct[of y] unfolding m_def by simp_all
    have "m + 1 \<le> 2 ^ nat (bitlen m)" using b(2) by simp
    then have "(of_int (m + 1) :: rat) \<le> of_int (2 ^ nat (bitlen m))"
      by (simp only: of_int_le_iff)
    then have "y \<le> 2 ^ nat (bitlen m)" using ym(2) by simp
    then have "1 / 2 ^ nat (bitlen m) \<le> a"
      using assms by (simp add: y_def field_simps)
    moreover have "(2::rat) powi (- bitlen m) = 1 / 2 ^ nat (bitlen m)"
      using b1 by (simp add: power_int_def field_simps)
    ultimately have lo: "2 powi binade a \<le> a" by (simp add: e)
    have "(2::rat) ^ nat (bitlen m - 1) = of_int (2 ^ nat (bitlen m - 1))" by simp
    also have "\<dots> \<le> of_int m" using b(1) by (simp only: of_int_le_iff)
    also have "\<dots> < y" by (rule ym(1))
    finally have "2 ^ nat (bitlen m - 1) < y" .
    then have "a < 1 / 2 ^ nat (bitlen m - 1)"
      using assms by (simp add: y_def field_simps)
    moreover have "(2::rat) powi (- bitlen m + 1) = 1 / 2 ^ nat (bitlen m - 1)"
    proof (cases "bitlen m = 1")
      case True
      then show ?thesis by simp
    next
      case False
      then have "- bitlen m + 1 < 0" using b1 by simp
      then show ?thesis
        using b1 by (simp add: power_int_def field_simps nat_diff_distrib)
    qed
    ultimately have hi: "a < 2 powi (binade a + 1)" by (simp add: e)
    from lo hi show ?thesis ..
  qed
  then show "2 powi binade a \<le> a" and "a < 2 powi (binade a + 1)" by simp_all
qed

lemma ulp_scale:
  "(2::rat) powi e = 2 ^ 52 * 2 powi (e - 52)"
  "(2::rat) powi (e + 1) = 2 ^ 53 * 2 powi (e - 52)"
proof -
  have "(2::rat) powi (52 + (e - 52)) = 2 powi 52 * 2 powi (e - 52)"
    by (rule power_int_add) simp
  then show "(2::rat) powi e = 2 ^ 52 * 2 powi (e - 52)" by simp
  have "(2::rat) powi (53 + (e - 52)) = 2 powi 53 * 2 powi (e - 52)"
    by (rule power_int_add) simp
  moreover have "53 + (e - 52) = e + 1" by simp
  ultimately show "(2::rat) powi (e + 1) = 2 ^ 53 * 2 powi (e - 52)" by simp
qed

lemma round_to_double_bounds:
  assumes "0 < a"
  shows "2 powi binade a \<le> round_to_double a" and "round_to_double a \<le> 2 powi (binade a + 1)"
proof -
  define u where "u = (2::rat) powi (binade a - 52)"
  have u: "0 < u" by (simp add: u_def)
  have lo: "2 ^ 52 * u \<le> a" and hi: "a < 2 ^ 53 * u"
    using binade_bounds[OF assms] unfolding ulp_scale[of "binade a"] u_def by simp_all
  have "(of_int (2 ^ 52) :: rat) \<le> a / u" using lo u by (simp add: pos_le_divide_eq)
  then have "round_half_even (of_int (2 ^ 52)) \<le> round_half_even (a / u)"
    by (rule round_half_even_mono)
  then have "2 ^ 52 \<le> round_half_even (a / u)"
    by (simp only: round_half_even_of_int)
  then have "(of_int (2 ^ 52) :: rat) \<le> of_int (round_half_even (a / u))"
    by (simp only: of_int_le_iff)
  then have "of_int (2 ^ 52) * u \<le> of_int (round_half_even (a / u)) * u"
    using u by (simp only: mult_le_cancel_right_pos)
  then show "2 powi binade a \<le> round_to_double a"
    unfolding round_to_double_def Let_def ulp_scale[of "binade a"] u_def by simp
  have "a / u \<le> of_int (2 ^ 53)" using hi u by (simp add: pos_divide_le_eq)
  then have "round_half_even (a / u) \<le> round_half_even (of_int (2 ^ 53))"
    by (rule round_half_even_mono)
  then have "round_half_even (a / u) \<le> 2 ^ 53"
    by (simp only: round_half_even_of_int)
  then have "(of_int (round_half_even (a / u)) :: rat) \<le> of_int (2 ^ 53)"
    by (simp only: of_int_le_iff)
  then have "of_int (round_half_even (a / u)) * u \<le> of_int (2 ^ 53) * u"
    using u by (simp only: mult_le_cancel_right_pos)
  then show "round_to_double a \<le> 2 powi (binade a + 1)"
    unfolding round_to_double_def Let_def ulp_scale[of "binade a"] u_def by simp
qed

lemma round_to_double_pos: "0 < a \<Longrightarrow> 0 < round_to_double a"
proof -
  assume a: "0 < a"
  have "(0::rat) < 2 powi binade a" by simp
  also have "\<dots> \<le> round_to_double a" using a by (rule round_to_double_bounds)
  finally show ?thesis .
qed

lemma round_to_double_mono:
  assumes "0 < a" "a \<le> b"
  shows "round_to_double a \<le> round_to_double b"
proof -
  have b: "0 < b" using assms by simp
  have "2 powi binade a \<le> a" using assms(1) by (rule binade_bounds)
  also have "a \<le> b" by fact
  also have "b < 2 powi (binade b + 1)" using b by (rule binade_bounds)
  finally have lt: "(2::rat) powi binade a < 2 powi (binade b + 1)" .
  have le: "binade a \<le> binade b"
  proof (rule ccontr)
    assume "\<not> binade a \<le> binade b"
    then have "binade b + 1 \<le> binade a" by simp
    then have "(2::rat) powi (binade b + 1) \<le> 2 powi binade a"
      by (rule power_int_increasing) simp
    with lt show False by simp
  qed
  show ?thesis
  proof (cases "binade a = binade b")
    case True
    define u where "u = (2::rat) powi (binade b - 52)"
    have u: "0 < u" by (simp add: u_def)
    have "a / u \<le> b / u" using assms(2) u by (simp add: divide_right_mono)
    then have "round_half_even (a / u) \<le> round_half_even (b / u)"
      by (rule round_half_even_mono)
    then have "(of_int (round_half_even (a / u)) :: rat) \<le> of_int (round_half_even (b / u))"
      by (simp only: of_int_le_iff)
    then have "of_int (round_half_even (a / u)) * u \<le> of_int (round_half_even (b / u)) * u"
      using u by (simp only: mult_le_cancel_right_pos)
    then show ?thesis
      unfolding round_to_double_def Let_def True u_def .
  next
    case False
    then have "binade a + 1 \<le> binade b" using le by simp
    then have "(2::rat) powi (binade a + 1) \<le> 2 powi binade b"
      by (rule power_int_increasing) simp
    moreover have "round_to_double a \<le> 2 powi (binade a + 1)"
      using assms(1) by (rule round_to_double_bounds)
    moreover have "2 powi binade b \<le> round_to_double b"
      using b by (rule round_to_double_bounds)
    ultimately show ?thesis by linarith
  qed
qed

lemma binary64_mono:
  assumes "x \<le> y"
  shows "binary64 x \<le> binary64 y"
proof -
  consider "0 < x" | "x = 0" | "x < 0" "y < 0" | "x < 0" "y = 0" | "x < 0" "0 < y"
    by linarith
  then show ?thesis
  proof cases
    case 1
    then show ?thesis using assms by (simp add: binary64_def round_to_double_mono)
  next
    case 2
    then show ?thesis
      using assms round_to_double_pos[of y] by (auto simp: binary64_def less_imp_le)
  next
    case 3
    then have "round_to_double (- y) \<le> round_to_double (- x)"
      using assms by (intro round_to_double_mono) simp_all
    then show ?thesis using 3 by (simp add: binary64_def)
  next
    case 4
    then show ?thesis using round_to_double_pos[of "- x"] by (simp add: binary64_def less_imp_le)
  next
    case 5
    then show ?thesis
      using round_to_double_pos[of "- x"] round_to_double_pos[of y]
      by (simp add: binary64_def)
  qed
qed



lemma binary64_0: "binary64 0 = 0"
  by (simp add: binary64_def)

lemma binary64_100: "binary64 100 = 100"
  by code_simp

lemma binary64_nonneg: "0 \<le> x \<Longrightarrow> 0 \<le> binary64 x"
  using binary64_mono[of 0 x] by (simp add: binary64_0)

section \<open>Quality metrics\<close>

lemma quality_score_unfold:
  "quality_score (calculate_quality_metrics i l) =
     (if l = 0 then 100
      else py_round2 (max 0 (binary64 (100 -
             binary64 (binary64 (binary64 (of_int i / of_int l) * 1000) * 2)))))"
  by (simp add: calculate_quality_metrics_def Let_def)







section \<open>Quantity score\<close>

text \<open>
  Claim C2: the quantity score is a function of the author's changed lines and the cohort
  average alone. It is 50 when the average is 0; otherwise the ratio author / average falls
  into exactly one band, each band closed at its lower bound: at least 2 gives 100, at least
  1.5 gives 90, at least 1 gives 80, at least 0.8 gives 70, at least 0.6 gives 60, at least
  0.4 gives 50, at least 0.2 gives 40, anything below gives 30. The score is always one of
  the eight tier values.
\<close>

theorem calculate_quantity_score_tiers:
  "(avg_lines = 0 \<longrightarrow> calculate_quantity_score n_lines avg_lines = 50)
   \<and> (avg_lines \<noteq> 0 \<longrightarrow>
        (calculate_quantity_score n_lines avg_lines = 100 \<longleftrightarrow> 2 \<le> of_int n_lines / avg_lines)
      \<and> (calculate_quantity_score n_lines avg_lines = 90 \<longleftrightarrow>
            3 / 2 \<le> of_int n_lines / avg_lines \<and> of_int n_lines / avg_lines < 2)
      \<and> (calculate_quantity_score n_lines avg_lines = 80 \<longleftrightarrow>
            1 \<le> of_int n_lines / avg_lines \<and> of_int n_lines / avg_lines < 3 / 2)
      \<and> (calculate_quantity_score n_lines avg_lines = 70 \<longleftrightarrow>
            4 / 5 \<le> of_int n_lines / avg_lines \<and> of_int n_lines / avg_lines < 1)
      \<and> (calculate_quantity_score n_lines avg_lines = 60 \<longleftrightarrow>
            3 / 5 \<le> of_int n_lines / avg_lines \<and> of_int n_lines / avg_lines < 4 / 5)
      \<and> (calculate_quantity_score n_lines avg_lines = 50 \<longleftrightarrow>
            2 / 5 \<le> of_int n_lines / avg_lines \<and> of_int n_lines / avg_lines < 3 / 5)
      \<and> (calculate_quantity_score n_lines avg_lines = 40 \<longleftrightarrow>
            1 / 5 \<le> of_int n_lines / avg_lines \<and> of_int n_lines / avg_lines < 2 / 5)
      \<and> (calculate_quantity_score n_lines avg_lines = 30 \<longleftrightarrow> of_int n_lines / avg_lines < 1 / 5))
   \<and> calculate_quantity_score n_lines avg_lines \<in> {30, 40, 50, 60, 70, 80, 90, 100}"
proof -
  define r where "r = of_int n_lines / avg_lines"
  have z: "avg_lines = 0 \<longrightarrow> calculate_quantity_score n_lines avg_lines = 50"
    by (simp add: calculate_quantity_score_def)
  have u: "avg_lines \<noteq> 0 \<Longrightarrow> calculate_quantity_score n_lines avg_lines =
      (if r \<ge> 2 then 100 else if r \<ge> 3 / 2 then 90 else if r \<ge> 1 then 80
       else if r \<ge> 4 / 5 then 70 else if r \<ge> 3 / 5 then 60 else if r \<ge> 2 / 5 then 50
       else if r \<ge> 1 / 5 then 40 else 30)"
    by (simp add: calculate_quantity_score_def Let_def r_def)
  have t100: "avg_lines \<noteq> 0 \<Longrightarrow> calculate_quantity_score n_lines avg_lines = 100 \<longleftrightarrow> 2 \<le> r"
    by (simp add: u)
  have t90: "avg_lines \<noteq> 0 \<Longrightarrow> calculate_quantity_score n_lines avg_lines = 90 \<longleftrightarrow> 3 / 2 \<le> r \<and> r < 2"
    by (simp add: u)
  have t80: "avg_lines \<noteq> 0 \<Longrightarrow> calculate_quantity_score n_lines avg_lines = 80 \<longleftrightarrow> 1 \<le> r \<and> r < 3 / 2"
    by (simp add: u)
  have t70: "avg_lines \<noteq> 0 \<Longrightarrow> calculate_quantity_score n_lines avg_lines = 70 \<longleftrightarrow> 4 / 5 \<le> r \<and> r < 1"
    by (simp add: u)
  have t60: "avg_lines \<noteq> 0 \<Longrightarrow> calculate_quantity_score n_lines avg_lines = 60 \<longleftrightarrow> 3 / 5 \<le> r \<and> r < 4 / 5"
    by (simp add: u)
  have t50: "avg_lines \<noteq> 0 \<Longrightarrow> calculate_quantity_score n_lines avg_lines = 50 \<longleftrightarrow> 2 / 5 \<le> r \<and> r < 3 / 5"
    by (simp add: u)
  have t40: "avg_lines \<noteq> 0 \<Longrightarrow> calculate_quantity_score n_lines avg_lines = 40 \<longleftrightarrow> 1 / 5 \<le> r \<and> r < 2 / 5"
    by (simp add: u)
  have t30: "avg_lines \<noteq> 0 \<Longrightarrow> calculate_quantity_score n_lines avg_lines = 30 \<longleftrightarrow> r < 1 / 5"
    by (simp add: u)
  have m: "calculate_quantity_score n_lines avg_lines \<in> {30, 40, 50, 60, 70, 80, 90, 100}"
  proof (cases "avg_lines = 0")
    case True
    then show ?thesis by (simp add: calculate_quantity_score_def)
  next
    case False
    show ?thesis unfolding u[OF False] by simp
  qed
  from z t100 t90 t80 t70 t60 t50 t40 t30 m show ?thesis
    unfolding r_def by blast
qed

theorem calculate_quantity_score_tiers_witness:
  "calculate_quantity_score 7 0 = 50
   \<and> calculate_quantity_score 140 140 = 80
   \<and> calculate_quantity_score 4 5 = 70
   \<and> calculate_quantity_score 1 5 = 40
   \<and> calculate_quantity_score (-3) 5 = 30"
proof -
  have "calculate_quantity_score 7 0 = 50"
    using calculate_quantity_score_tiers[of 0 7] by blast
  moreover have "calculate_quantity_score 140 140 = 80"
    using calculate_quantity_score_tiers[of 140 140] by simp
  moreover have "calculate_quantity_score 4 5 = 70"
    using calculate_quantity_score_tiers[of 5 4] by simp
  moreover have "calculate_quantity_score 1 5 = 40"
    using calculate_quantity_score_tiers[of 5 1] by simp
  moreover have "calculate_quantity_score (-3) 5 = 30"
    using calculate_quantity_score_tiers[of 5 "-3"] by simp
  ultimately show ?thesis by blast
qed

section \<open>Final score\<close>

lemma update_scores_final:
  "r \<in> set (update_scores results) \<Longrightarrow>
     final_score_r r = calculate_final_score (quality_score_r r) (quantity_score_r r)"
  unfolding update_scores_def Let_def by auto

text \<open>
  Claim C3: the final score is \<open>0.8 \<times> quality + 0.2 \<times> quantity\<close> rounded to two decimals:
  a multiple of 1/100 within 1/200 of the weighted sum, and within 0 and 100 when both
  scores are; every record of the report carries the final score of its own quality and
  quantity scores. For 3 issues over 140 changed lines the quality score is 57.14, at ratio
  1 to the cohort average the quantity score is 80, and the final score is 61.71: so for
  the only author of a cohort, with two commits of 60 insertions and 10 deletions each and
  three dead-code markers found in the added lines.
\<close>

theorem calculate_final_score_weighted:
  "calculate_final_score quality quantity = py_round2 (4 / 5 * quality + 1 / 5 * quantity)
   \<and> \<bar>calculate_final_score quality quantity - (4 / 5 * quality + 1 / 5 * quantity)\<bar> \<le> 1 / 200
   \<and> (\<exists>k::int. calculate_final_score quality quantity = of_int k / 100)
   \<and> (0 \<le> quality \<and> quality \<le> 100 \<and> 0 \<le> quantity \<and> quantity \<le> 100 \<longrightarrow>
        0 \<le> calculate_final_score quality quantity \<and> calculate_final_score quality quantity \<le> 100)
   \<and> (\<forall>r \<in> set (update_scores results).
        final_score_r r = py_round2 (4 / 5 * quality_score_r r + 1 / 5 * quantity_score_r r))
   \<and> quality_score (calculate_quality_metrics 3 140) = 5714 / 100
   \<and> calculate_quantity_score 140 140 = 80
   \<and> calculate_final_score (quality_score (calculate_quality_metrics 3 140))
        (calculate_quantity_score 140 140) = 6171 / 100
   \<and> update_scores
        [analyze_author_code (\<lambda>code_lines. [DeadCode \<mapsto> 3]) (\<lambda>code. OtherError) 1000 (\<lambda>b. b) ''abc''
          [\<lparr>author_name = ''abc'', parents = [],
            stats = Some \<lparr>insertions = 60, deletions = 10, lines = 70, files = 2\<rparr>,
            diff_first_parent = None,
            diff_null_tree = Some [''@@ -0,0 +1,2 @@'' @ [CHR 0x0A] @ ''+# TODO a''
                                     @ [CHR 0x0A] @ ''+# FIXME b'']\<rparr>,
           \<lparr>author_name = ''abc'', parents = [''9fceb02''],
            stats = Some \<lparr>insertions = 60, deletions = 10, lines = 70, files = 1\<rparr>,
            diff_first_parent = Some [''@@ -1 +1 @@'' @ [CHR 0x0A] @ ''-x''
                                     @ [CHR 0x0A] @ ''+# HACK c''],
            diff_null_tree = None\<rparr>]]
       = [\<lparr>contributor = ''abc'', commits_made = 2, changed_lines = 140, total_issues = 3,
           issues_per_kloc_r = 2143 / 100, issue_rate_per_kloc_r = 2143 / 100,
           quality_score_r = 5714 / 100, quantity_score_r = 80, final_score_r = 6171 / 100\<rparr>]"
proof -
  have e: "calculate_final_score q n = py_round2 (4 / 5 * q + 1 / 5 * n)" for q n
    unfolding calculate_final_score_def by (simp add: mult.commute)
  have n: "\<bar>calculate_final_score quality quantity - (4 / 5 * quality + 1 / 5 * quantity)\<bar> \<le> 1 / 200"
    unfolding e by (rule py_round2_near)
  have h: "\<exists>k::int. calculate_final_score quality quantity = of_int k / 100"
    unfolding e by (rule py_round2_hundredths)
  have b: "0 \<le> calculate_final_score quality quantity \<and> calculate_final_score quality quantity \<le> 100"
    if "0 \<le> quality \<and> quality \<le> 100 \<and> 0 \<le> quantity \<and> quantity \<le> 100"
  proof -
    have "0 \<le> 4 / 5 * quality + 1 / 5 * quantity" "4 / 5 * quality + 1 / 5 * quantity \<le> 100"
      using that by auto
    then show ?thesis unfolding e by (rule py_round2_range)
  qed
  have u: "final_score_r r = py_round2 (4 / 5 * quality_score_r r + 1 / 5 * quantity_score_r r)"
    if "r \<in> set (update_scores results)" for r
    using update_scores_final[OF that] by (simp only: e)
  have s1: "quality_score (calculate_quality_metrics 3 140) = 5714 / 100" by code_simp
  have s2: "calculate_quantity_score 140 140 = 80" by code_simp
  have s3: "calculate_final_score (quality_score (calculate_quality_metrics 3 140))
        (calculate_quantity_score 140 140) = 6171 / 100" by code_simp
  have s4: "update_scores
        [analyze_author_code (\<lambda>code_lines. [DeadCode \<mapsto> 3]) (\<lambda>code. OtherError) 1000 (\<lambda>b. b) ''abc''
          [\<lparr>author_name = ''abc'', parents = [],
            stats = Some \<lparr>insertions = 60, deletions = 10, lines = 70, files = 2\<rparr>,
            diff_first_parent = None,
            diff_null_tree = Some [''@@ -0,0 +1,2 @@'' @ [CHR 0x0A] @ ''+# TODO a''
                                     @ [CHR 0x0A] @ ''+# FIXME b'']\<rparr>,
           \<lparr>author_name = ''abc'', parents = [''9fceb02''],
            stats = Some \<lparr>insertions = 60, deletions = 10, lines = 70, files = 1\<rparr>,
            diff_first_parent = Some [''@@ -1 +1 @@'' @ [CHR 0x0A] @ ''-x''
                                     @ [CHR 0x0A] @ ''+# HACK c''],
            diff_null_tree = None\<rparr>]]
       = [\<lparr>contributor = ''abc'', commits_made = 2, changed_lines = 140, total_issues = 3,
           issues_per_kloc_r = 2143 / 100, issue_rate_per_kloc_r = 2143 / 100,
           quality_score_r = 5714 / 100, quantity_score_r = 80, final_score_r = 6171 / 100\<rparr>]"
    by code_simp
  from e[of quality quantity] n h b u s1 s2 s3 s4 show ?thesis by blast
qed

theorem calculate_final_score_weighted_witness:
  "(0::rat) \<le> 5714 / 100 \<and> (5714 / 100 :: rat) \<le> 100 \<and> (0::rat) \<le> 80 \<and> (80::rat) \<le> 100
   \<and> calculate_final_score (5714 / 100) 80 = 6171 / 100
   \<and> 0 \<le> calculate_final_score (5714 / 100) 80 \<and> calculate_final_score (5714 / 100) 80 \<le> 100
   \<and> \<lparr>contributor = ''abc'', commits_made = 2, changed_lines = 140, total_issues = 3,
        issues_per_kloc_r = 2143 / 100, issue_rate_per_kloc_r = 2143 / 100,
        quality_score_r = 5714 / 100, quantity_score_r = 80, final_score_r = 6171 / 100\<rparr>
       \<in> set (update_scores
          [\<lparr>contributor = ''abc'', commits_made = 2, changed_lines = 140, total_issues = 3,
            issues_per_kloc_r = 2143 / 100, issue_rate_per_kloc_r = 2143 / 100,
            quality_score_r = 5714 / 100, quantity_score_r = 0, final_score_r = 0\<rparr>])
   \<and> py_round2 (4 / 5 * (5714 / 100) + 1 / 5 * 80) = 6171 / 100"
proof -
  define r0 where "r0 = \<lparr>contributor = ''abc'', commits_made = 2, changed_lines = 140,
        total_issues = 3, issues_per_kloc_r = 2143 / 100, issue_rate_per_kloc_r = 2143 / 100,
        quality_score_r = 5714 / 100, quantity_score_r = 0, final_score_r = 0\<rparr>"
  define r1 where "r1 = \<lparr>contributor = ''abc'', commits_made = 2, changed_lines = 140,
        total_issues = 3, issues_per_kloc_r = 2143 / 100, issue_rate_per_kloc_r = 2143 / 100,
        quality_score_r = 5714 / 100, quantity_score_r = 80, final_score_r = 6171 / 100\<rparr>"
  note T = calculate_final_score_weighted[of "5714 / 100" 80 "[r0]"]
  have "update_scores [r0] = [r1]" unfolding r0_def r1_def by code_simp
  then have m: "r1 \<in> set (update_scores [r0])" by simp
  from T m have "final_score_r r1 = py_round2 (4 / 5 * quality_score_r r1 + 1 / 5 * quantity_score_r r1)"
    by blast
  then have p: "py_round2 (4 / 5 * (5714 / 100) + 1 / 5 * 80) = 6171 / 100"
    by (simp only: r1_def score_record.simps)
  from T have "calculate_final_score (5714 / 100) 80 = py_round2 (4 / 5 * (5714 / 100) + 1 / 5 * 80)"
    by blast
  then have f: "calculate_final_score (5714 / 100) 80 = 6171 / 100"
    by (simp only: p)
  have "(0::rat) \<le> 5714 / 100" "(5714 / 100 :: rat) \<le> 100" "(0::rat) \<le> 80" "(80::rat) \<le> 100"
    "(0::rat) \<le> 6171 / 100" "(6171 / 100 :: rat) \<le> 100"
    by simp_all
  with f m p show ?thesis unfolding r0_def r1_def by simp
qed

section \<open>Monotonicity and bounds of the quality score\<close>

text \<open>
  Claim C9: for a fixed positive line count the quality score does not increase when the
  issue count increases; the quality score is never negative, and for counts that are not
  negative it is at most 100.
\<close>

theorem quality_score_monotone_bounded:
  "(0 < n_lines \<and> i \<le> j \<longrightarrow>
      quality_score (calculate_quality_metrics j n_lines)
        \<le> quality_score (calculate_quality_metrics i n_lines))
   \<and> 0 \<le> quality_score (calculate_quality_metrics i n_lines)
   \<and> (0 \<le> i \<and> 0 \<le> n_lines \<longrightarrow> quality_score (calculate_quality_metrics i n_lines) \<le> 100)"
proof -
  have step: "binary64 (100 - binary64 (binary64 (binary64 y * 1000) * 2))
        \<le> binary64 (100 - binary64 (binary64 (binary64 x * 1000) * 2))" if "x \<le> y" for x y :: rat
  proof -
    have "binary64 x \<le> binary64 y" using that by (rule binary64_mono)
    then have "binary64 (binary64 x * 1000) \<le> binary64 (binary64 y * 1000)"
      by (intro binary64_mono) simp
    then have "binary64 (binary64 (binary64 x * 1000) * 2)
        \<le> binary64 (binary64 (binary64 y * 1000) * 2)"
      by (intro binary64_mono) simp
    then show ?thesis by (intro binary64_mono) simp
  qed
  have mono: "quality_score (calculate_quality_metrics j n_lines)
        \<le> quality_score (calculate_quality_metrics i n_lines)" if "0 < n_lines \<and> i \<le> j"
  proof -
    have "(of_int i :: rat) / of_int n_lines \<le> of_int j / of_int n_lines"
      using that by (simp add: divide_right_mono)
    then have "max 0 (binary64 (100 - binary64 (binary64
            (binary64 (of_int j / of_int n_lines) * 1000) * 2)))
          \<le> max (0::rat) (binary64 (100 - binary64 (binary64
            (binary64 (of_int i / of_int n_lines) * 1000) * 2)))"
      using step by (intro max.mono) simp_all
    then show ?thesis
      using that by (simp add: quality_score_unfold py_round2_mono)
  qed
  have lower: "0 \<le> quality_score (calculate_quality_metrics i n_lines)"
    using py_round2_mono[of 0 "max 0 (binary64 (100 - binary64 (binary64
            (binary64 (of_int i / of_int n_lines) * 1000) * 2)))"]
    by (simp add: quality_score_unfold py_round2_0)
  have upper: "quality_score (calculate_quality_metrics i n_lines) \<le> 100"
    if "0 \<le> i \<and> 0 \<le> n_lines"
  proof (cases "n_lines = 0")
    case True
    then show ?thesis by (simp add: quality_score_unfold)
  next
    case False
    have "(0::rat) \<le> of_int i / of_int n_lines" using that by simp
    then have "binary64 (100 - binary64 (binary64
            (binary64 (of_int i / of_int n_lines) * 1000) * 2))
        \<le> binary64 (100 - binary64 (binary64 (binary64 0 * 1000) * 2))"
      by (rule step)
    also have "\<dots> = 100" by (simp add: binary64_0 binary64_100)
    finally have "max 0 (binary64 (100 - binary64 (binary64
            (binary64 (of_int i / of_int n_lines) * 1000) * 2))) \<le> (100::rat)"
      by simp
    then show ?thesis
      using False py_round2_mono[of "max 0 (binary64 (100 - binary64 (binary64
            (binary64 (of_int i / of_int n_lines) * 1000) * 2)))" 100]
      by (simp add: quality_score_unfold py_round2_100)
  qed
  from mono lower upper show ?thesis by blast
qed

theorem quality_score_monotone_bounded_witness:
  "(0::int) < 140 \<and> (3::int) \<le> 4 \<and> (0::int) \<le> 3
   \<and> quality_score (calculate_quality_metrics 4 140) \<le> quality_score (calculate_quality_metrics 3 140)
   \<and> 0 \<le> quality_score (calculate_quality_metrics 3 140)
   \<and> quality_score (calculate_quality_metrics 3 140) \<le> 100"
  using quality_score_monotone_bounded[of 140 3 4] by simp

section \<open>String tests\<close>

lemma startswith_iff: "startswith s p \<longleftrightarrow> (\<exists>t. s = p @ t)"
  by (induction s p rule: startswith.induct) auto

lemma startswith_self: "startswith s s"
  by (simp add: startswith_iff)

lemma str_in_iff: "str_in a b \<longleftrightarrow> (\<exists>p s. b = p @ a @ s)"
proof (induction b)
  case Nil
  then show ?case by simp
next
  case (Cons c cs)
  show ?case
  proof
    assume "str_in a (c # cs)"
    then consider "startswith (c # cs) a" | "str_in a cs" by auto
    then show "\<exists>p s. c # cs = p @ a @ s"
    proof cases
      case 1
      then obtain t where "c # cs = a @ t" by (auto simp: startswith_iff)
      then have "c # cs = [] @ a @ t" by simp
      then show ?thesis by blast
    next
      case 2
      then obtain p s where "cs = p @ a @ s" using Cons.IH by blast
      then have "c # cs = (c # p) @ a @ s" by simp
      then show ?thesis by blast
    qed
  next
    assume "\<exists>p s. c # cs = p @ a @ s"
    then obtain p s where e: "c # cs = p @ a @ s" by blast
    show "str_in a (c # cs)"
    proof (cases p)
      case Nil
      then have "startswith (c # cs) a" using e by (auto simp: startswith_iff)
      then show ?thesis by simp
    next
      case (Cons x p')
      then have "cs = p' @ a @ s" using e by simp
      then have "str_in a cs" using Cons.IH by blast
      then show ?thesis by simp
    qed
  qed
qed

lemma str_in_self: "str_in a a"
proof -
  have "a = [] @ a @ []" by simp
  then show ?thesis unfolding str_in_iff by blast
qed

section \<open>Grouping the commits by author\<close>

lemma assign_commit_eq:
  "assign_commit authors c m =
     (if \<exists>t \<in> set authors. str_in t (author_name c) \<or> str_in (author_name c) t
      then append_commit m (author_name c) c else m)"
  by (induction authors) auto

lemma assign_commit_find:
  "assign_commit authors c m =
     (case find (\<lambda>t. str_in t (author_name c) \<or> str_in (author_name c) t) authors of
        None \<Rightarrow> m
      | Some t \<Rightarrow> append_commit m (author_name c) c)"
  by (induction authors) auto

lemma commits_loop_lookup:
  "commits_loop authors cs m a =
     (if filter (\<lambda>c. author_name c = a
                \<and> (\<exists>t \<in> set authors. str_in t a \<or> str_in a t)) cs = []
      then m a
      else Some ((case m a of None \<Rightarrow> [] | Some l \<Rightarrow> l)
             @ filter (\<lambda>c. author_name c = a
                \<and> (\<exists>t \<in> set authors. str_in t a \<or> str_in a t)) cs))"
proof (induction cs arbitrary: m)
  case Nil
  then show ?case by simp
next
  case (Cons c cs)
  show ?case
    unfolding commits_loop.simps Cons.IH assign_commit_eq
    by (auto simp: append_commit_def split: option.splits)
qed

lemma bucket_eq:
  "get_commits_by_author_and_time (Some window) authors a =
     (if (\<exists>c \<in> set window. author_name c = a)
          \<and> (\<exists>t \<in> set authors. str_in t a \<or> str_in a t)
      then Some (filter (\<lambda>c. author_name c = a) window) else None)"
proof -
  have "filter (\<lambda>c. author_name c = a \<and> (\<exists>t \<in> set authors. str_in t a \<or> str_in a t)) window
      = (if \<exists>t \<in> set authors. str_in t a \<or> str_in a t
         then filter (\<lambda>c. author_name c = a) window else [])"
    by simp
  then show ?thesis
    unfolding get_commits_by_author_and_time_def option.case commits_loop_lookup
    by (auto simp: filter_empty_conv)
qed

text \<open>
  Claim C5: a commit of the date window is in the result mapping iff some target name is a
  substring of its author's name or the author's name is a substring of a target name,
  characters compared exactly. It is filed once, under its own author's name: the bucket of
  a name holds the window's commits by that author, each as often as the window has it.
  The loop over the targets stops at the first target that matches. A target name matches
  a commit authored by exactly that name.
\<close>

theorem get_commits_by_author_and_time_matching:
  "(\<forall>c \<in> set window.
      (\<exists>cs. get_commits_by_author_and_time (Some window) authors (author_name c) = Some cs
            \<and> c \<in> set cs)
      \<longleftrightarrow> (\<exists>t \<in> set authors.
             (\<exists>p s. author_name c = p @ t @ s) \<or> (\<exists>p s. t = p @ author_name c @ s)))
   \<and> (\<forall>a cs. get_commits_by_author_and_time (Some window) authors a = Some cs \<longrightarrow>
         cs = filter (\<lambda>c. author_name c = a) window
         \<and> (\<forall>c. count_list cs c = (if author_name c = a then count_list window c else 0)))
   \<and> (\<forall>c m. assign_commit authors c m =
         (case find (\<lambda>t. str_in t (author_name c) \<or> str_in (author_name c) t) authors of
            None \<Rightarrow> m
          | Some t \<Rightarrow> append_commit m (author_name c) c))
   \<and> (\<forall>t a. str_in t a \<or> str_in a t \<longrightarrow>
         (\<forall>c m. author_name c = t \<longrightarrow> assign_commit [t] c m = append_commit m t c))"
proof -
  have placed: "(\<exists>cs. get_commits_by_author_and_time (Some window) authors (author_name c) = Some cs
            \<and> c \<in> set cs)
      \<longleftrightarrow> (\<exists>t \<in> set authors.
             (\<exists>p s. author_name c = p @ t @ s) \<or> (\<exists>p s. t = p @ author_name c @ s))"
    if "c \<in> set window" for c
    using that unfolding bucket_eq str_in_iff by auto
  have count: "count_list (filter (\<lambda>c. author_name c = a) window) c
        = (if author_name c = a then count_list window c else 0)" for a c
    by (induction window) auto
  have once: "cs = filter (\<lambda>c. author_name c = a) window
         \<and> (\<forall>c. count_list cs c = (if author_name c = a then count_list window c else 0))"
    if "get_commits_by_author_and_time (Some window) authors a = Some cs" for a cs
  proof -
    from that have "cs = filter (\<lambda>c. author_name c = a) window"
      unfolding bucket_eq by (simp split: if_splits)
    then show ?thesis using count by simp
  qed
  have first: "assign_commit authors c m =
         (case find (\<lambda>t. str_in t (author_name c) \<or> str_in (author_name c) t) authors of
            None \<Rightarrow> m
          | Some t \<Rightarrow> append_commit m (author_name c) c)" for c m
    by (rule assign_commit_find)
  have self: "assign_commit [t] c m = append_commit m t c" if "author_name c = t" for t c m
    using that by (simp add: str_in_self)
  from placed once first self show ?thesis by blast
qed

theorem get_commits_by_author_and_time_matching_witness:
  "get_commits_by_author_and_time
      (Some [\<lparr>author_name = ''zhangbo0037'', parents = [], stats = None,
        diff_first_parent = None, diff_null_tree = None\<rparr>,
             \<lparr>author_name = ''Zhang'', parents = [], stats = None,
        diff_first_parent = None, diff_null_tree = None\<rparr>])
      [''li'', ''zhang''] ''zhangbo0037''
     = Some [\<lparr>author_name = ''zhangbo0037'', parents = [], stats = None,
        diff_first_parent = None, diff_null_tree = None\<rparr>]
   \<and> \<not> (\<exists>cs. get_commits_by_author_and_time
      (Some [\<lparr>author_name = ''zhangbo0037'', parents = [], stats = None,
        diff_first_parent = None, diff_null_tree = None\<rparr>,
             \<lparr>author_name = ''Zhang'', parents = [], stats = None,
        diff_first_parent = None, diff_null_tree = None\<rparr>])
      [''li'', ''zhang''] ''Zhang'' = Some cs
        \<and> \<lparr>author_name = ''Zhang'', parents = [], stats = None,
        diff_first_parent = None, diff_null_tree = None\<rparr> \<in> set cs)
   \<and> assign_commit [''li'', ''zhang'']
        \<lparr>author_name = ''zhangbo0037'', parents = [], stats = None,
        diff_first_parent = None, diff_null_tree = None\<rparr> Map.empty
       = append_commit Map.empty ''zhangbo0037''
           \<lparr>author_name = ''zhangbo0037'', parents = [], stats = None,
        diff_first_parent = None, diff_null_tree = None\<rparr>
   \<and> str_in ''zhang'' ''zhangbo0037''
   \<and> assign_commit [''zhang'']
        \<lparr>author_name = ''zhang'', parents = [], stats = None,
        diff_first_parent = None, diff_null_tree = None\<rparr> Map.empty
       = append_commit Map.empty ''zhang''
           \<lparr>author_name = ''zhang'', parents = [], stats = None,
        diff_first_parent = None, diff_null_tree = None\<rparr>"
proof -
  define c1 where "c1 = \<lparr>author_name = ''zhangbo0037'', parents = [], stats = None,
      diff_first_parent = None, diff_null_tree = (None :: string list option)\<rparr>"
  define c2 where "c2 = \<lparr>author_name = ''Zhang'', parents = [], stats = None,
      diff_first_parent = None, diff_null_tree = (None :: string list option)\<rparr>"
  define cz where "cz = \<lparr>author_name = ''zhang'', parents = [], stats = None,
      diff_first_parent = None, diff_null_tree = (None :: string list option)\<rparr>"
  note T = get_commits_by_author_and_time_matching[of "[c1, c2]" "[''li'', ''zhang'']"]
  note placed = T[THEN conjunct1]
  note once = T[THEN conjunct2, THEN conjunct1, rule_format]
  note first = T[THEN conjunct2, THEN conjunct2, THEN conjunct1, rule_format]
  note self = T[THEN conjunct2, THEN conjunct2, THEN conjunct2, rule_format]
  have n1: "author_name c1 = ''zhangbo0037''" and n2: "author_name c2 = ''Zhang''"
    and nz: "author_name cz = ''zhang''"
    by (simp_all add: c1_def c2_def cz_def)
  have in1: "c1 \<in> set [c1, c2]" and in2: "c2 \<in> set [c1, c2]" by simp_all
  have "author_name c1 = [] @ ''zhang'' @ ''bo0037''" by (simp add: c1_def)
  then have "\<exists>p s. author_name c1 = p @ ''zhang'' @ s" by blast
  then have m1: "\<exists>t \<in> set [''li'', ''zhang''].
      (\<exists>p s. author_name c1 = p @ t @ s) \<or> (\<exists>p s. t = p @ author_name c1 @ s)"
    by (intro bexI[of _ "''zhang''"] disjI1) simp_all
  have "\<not> (\<exists>t \<in> set [''li'', ''zhang'']. str_in t (author_name c2) \<or> str_in (author_name c2) t)"
    by (simp add: c2_def)
  then have m2: "\<not> (\<exists>t \<in> set [''li'', ''zhang''].
      (\<exists>p s. author_name c2 = p @ t @ s) \<or> (\<exists>p s. t = p @ author_name c2 @ s))"
    unfolding str_in_iff .
  have "\<exists>cs. get_commits_by_author_and_time (Some [c1, c2]) [''li'', ''zhang''] (author_name c1) = Some cs
          \<and> c1 \<in> set cs"
    using placed[THEN bspec, OF in1] m1 by (rule iffD2)
  then obtain cs where cs: "get_commits_by_author_and_time (Some [c1, c2]) [''li'', ''zhang'']
      (author_name c1) = Some cs"
    by blast
  have "cs = filter (\<lambda>c. author_name c = author_name c1) [c1, c2]"
    using once[OF cs] by (rule conjunct1)
  then have "cs = [c1]" by (simp add: n1 n2)
  with cs have r1: "get_commits_by_author_and_time (Some [c1, c2]) [''li'', ''zhang'']
      ''zhangbo0037'' = Some [c1]"
    by (simp add: n1)
  have "\<not> (\<exists>cs. get_commits_by_author_and_time (Some [c1, c2]) [''li'', ''zhang''] (author_name c2) = Some cs
          \<and> c2 \<in> set cs)"
    using m2 placed[THEN bspec, OF in2] by (simp only: simp_thms)
  then have r2: "\<not> (\<exists>cs. get_commits_by_author_and_time (Some [c1, c2]) [''li'', ''zhang'']
      ''Zhang'' = Some cs \<and> c2 \<in> set cs)"
    unfolding n2 .
  have r3: "assign_commit [''li'', ''zhang''] c1 Map.empty
      = append_commit Map.empty ''zhangbo0037'' c1"
    unfolding first[of c1 Map.empty] by (simp add: n1)
  have r4: "str_in ''zhang'' ''zhangbo0037''" by simp
  then have "str_in ''zhang'' ''zhangbo0037'' \<or> str_in ''zhangbo0037'' ''zhang''" by (rule disjI1)
  then have r5: "assign_commit [''zhang''] cz Map.empty = append_commit Map.empty ''zhang'' cz"
    using nz by (rule self)
  from r1 r2 r3 r4 r5 show ?thesis unfolding c1_def c2_def cz_def by (intro conjI)
qed

section \<open>Quantity analysis\<close>

lemma quantity_loop_sums:
  "quantity_loop cs (i, d, f) =
     (i + sum_list (map (\<lambda>c. case stats c of None \<Rightarrow> 0 | Some s \<Rightarrow> insertions s) cs),
      d + sum_list (map (\<lambda>c. case stats c of None \<Rightarrow> 0 | Some s \<Rightarrow> deletions s) cs),
      f + sum_list (map (\<lambda>c. case stats c of None \<Rightarrow> 0 | Some s \<Rightarrow> files s) cs))"
  by (induction cs arbitrary: i d f) (auto split: option.splits)

lemma analyze_commit_quantity_sums:
  "analyze_commit_quantity cs =
     \<lparr>commit_count = int (length cs),
      added_lines = sum_list (map (\<lambda>c. case stats c of None \<Rightarrow> 0 | Some s \<Rightarrow> insertions s) cs),
      deleted_lines = sum_list (map (\<lambda>c. case stats c of None \<Rightarrow> 0 | Some s \<Rightarrow> deletions s) cs),
      net_lines = sum_list (map (\<lambda>c. case stats c of None \<Rightarrow> 0 | Some s \<Rightarrow> insertions s) cs)
                  - sum_list (map (\<lambda>c. case stats c of None \<Rightarrow> 0 | Some s \<Rightarrow> deletions s) cs),
      files_changed = sum_list (map (\<lambda>c. case stats c of None \<Rightarrow> 0 | Some s \<Rightarrow> files s) cs),
      total_changed_lines = sum_list (map (\<lambda>c. case stats c of None \<Rightarrow> 0 | Some s \<Rightarrow> insertions s) cs)
                  + sum_list (map (\<lambda>c. case stats c of None \<Rightarrow> 0 | Some s \<Rightarrow> deletions s) cs)\<rparr>"
  unfolding analyze_commit_quantity_def quantity_loop_sums by simp

lemma sum_list_nonneg_stats:
  fixes g :: "commit_stats \<Rightarrow> int"
  assumes "\<forall>c \<in> set cs. \<forall>s. stats c = Some s \<longrightarrow> 0 \<le> g s"
  shows "0 \<le> sum_list (map (\<lambda>c. case stats c of None \<Rightarrow> 0 | Some s \<Rightarrow> g s) cs)"
  using assms by (induction cs) (auto split: option.splits)

text \<open>
  Claim C7, as stated, has all six quantity metrics non-negative. Net lines is insertions
  minus deletions: a commit that only deletes five lines gives net lines -5.
\<close>

theorem net_lines_negative_counterexample:
  "\<not> 0 \<le> net_lines (analyze_commit_quantity
      [\<lparr>author_name = ''abc'', parents = [''9fceb02''],
        stats = Some \<lparr>insertions = 0, deletions = 5, lines = 5, files = 1\<rparr>,
        diff_first_parent = Some [''@@ -1,5 +0,0 @@''], diff_null_tree = None\<rparr>])"
  by (simp add: analyze_commit_quantity_def)

text \<open>
  Claim C7, amended: the six quantity metrics are integers, all 0 for no commits, and each
  is additive over the author's commits, a commit with readable stats adding 1 commit, its
  insertions, its deletions, their difference, its files and their sum. Commit count,
  insertions, deletions, files changed and total changed lines are non-negative when the
  stats of the commits are; net lines is insertions minus deletions.
\<close>

theorem analyze_commit_quantity_additive:
  "analyze_commit_quantity [] =
      \<lparr>commit_count = 0, added_lines = 0, deleted_lines = 0, net_lines = 0,
       files_changed = 0, total_changed_lines = 0\<rparr>
   \<and> commit_count (analyze_commit_quantity (xs @ ys))
       = commit_count (analyze_commit_quantity xs) + commit_count (analyze_commit_quantity ys)
   \<and> added_lines (analyze_commit_quantity (xs @ ys))
       = added_lines (analyze_commit_quantity xs) + added_lines (analyze_commit_quantity ys)
   \<and> deleted_lines (analyze_commit_quantity (xs @ ys))
       = deleted_lines (analyze_commit_quantity xs) + deleted_lines (analyze_commit_quantity ys)
   \<and> net_lines (analyze_commit_quantity (xs @ ys))
       = net_lines (analyze_commit_quantity xs) + net_lines (analyze_commit_quantity ys)
   \<and> files_changed (analyze_commit_quantity (xs @ ys))
       = files_changed (analyze_commit_quantity xs) + files_changed (analyze_commit_quantity ys)
   \<and> total_changed_lines (analyze_commit_quantity (xs @ ys))
       = total_changed_lines (analyze_commit_quantity xs)
         + total_changed_lines (analyze_commit_quantity ys)
   \<and> (\<forall>s. stats c = Some s \<longrightarrow>
         analyze_commit_quantity [c] =
           \<lparr>commit_count = 1, added_lines = insertions s, deleted_lines = deletions s,
            net_lines = insertions s - deletions s, files_changed = files s,
            total_changed_lines = insertions s + deletions s\<rparr>)
   \<and> net_lines (analyze_commit_quantity xs)
       = added_lines (analyze_commit_quantity xs) - deleted_lines (analyze_commit_quantity xs)
   \<and> ((\<forall>c \<in> set xs. \<forall>s. stats c = Some s \<longrightarrow>
           0 \<le> insertions s \<and> 0 \<le> deletions s \<and> 0 \<le> files s) \<longrightarrow>
         0 \<le> commit_count (analyze_commit_quantity xs)
       \<and> 0 \<le> added_lines (analyze_commit_quantity xs)
       \<and> 0 \<le> deleted_lines (analyze_commit_quantity xs)
       \<and> 0 \<le> files_changed (analyze_commit_quantity xs)
       \<and> 0 \<le> total_changed_lines (analyze_commit_quantity xs))"
proof -
  have zero: "analyze_commit_quantity [] =
      \<lparr>commit_count = 0, added_lines = 0, deleted_lines = 0, net_lines = 0,
       files_changed = 0, total_changed_lines = 0\<rparr>"
    by (simp add: analyze_commit_quantity_def)
  have one: "analyze_commit_quantity [c] =
           \<lparr>commit_count = 1, added_lines = insertions s, deleted_lines = deletions s,
            net_lines = insertions s - deletions s, files_changed = files s,
            total_changed_lines = insertions s + deletions s\<rparr>" if "stats c = Some s" for s
    using that by (simp add: analyze_commit_quantity_def)
  have nonneg: "0 \<le> commit_count (analyze_commit_quantity xs)
       \<and> 0 \<le> added_lines (analyze_commit_quantity xs)
       \<and> 0 \<le> deleted_lines (analyze_commit_quantity xs)
       \<and> 0 \<le> files_changed (analyze_commit_quantity xs)
       \<and> 0 \<le> total_changed_lines (analyze_commit_quantity xs)"
    if h: "\<forall>c \<in> set xs. \<forall>s. stats c = Some s \<longrightarrow>
           0 \<le> insertions s \<and> 0 \<le> deletions s \<and> 0 \<le> files s"
  proof -
    have "0 \<le> sum_list (map (\<lambda>c. case stats c of None \<Rightarrow> 0 | Some s \<Rightarrow> insertions s) xs)"
      by (rule sum_list_nonneg_stats) (use h in blast)
    moreover have "0 \<le> sum_list (map (\<lambda>c. case stats c of None \<Rightarrow> 0 | Some s \<Rightarrow> deletions s) xs)"
      by (rule sum_list_nonneg_stats) (use h in blast)
    moreover have "0 \<le> sum_list (map (\<lambda>c. case stats c of None \<Rightarrow> 0 | Some s \<Rightarrow> files s) xs)"
      by (rule sum_list_nonneg_stats) (use h in blast)
    ultimately show ?thesis unfolding analyze_commit_quantity_sums by simp
  qed
  have add: "commit_count (analyze_commit_quantity (xs @ ys))
       = commit_count (analyze_commit_quantity xs) + commit_count (analyze_commit_quantity ys)"
     "added_lines (analyze_commit_quantity (xs @ ys))
       = added_lines (analyze_commit_quantity xs) + added_lines (analyze_commit_quantity ys)"
     "deleted_lines (analyze_commit_quantity (xs @ ys))
       = deleted_lines (analyze_commit_quantity xs) + deleted_lines (analyze_commit_quantity ys)"
     "net_lines (analyze_commit_quantity (xs @ ys))
       = net_lines (analyze_commit_quantity xs) + net_lines (analyze_commit_quantity ys)"
     "files_changed (analyze_commit_quantity (xs @ ys))
       = files_changed (analyze_commit_quantity xs) + files_changed (analyze_commit_quantity ys)"
     "total_changed_lines (analyze_commit_quantity (xs @ ys))
       = total_changed_lines (analyze_commit_quantity xs)
         + total_changed_lines (analyze_commit_quantity ys)"
    unfolding analyze_commit_quantity_sums by simp_all
  have net: "net_lines (analyze_commit_quantity xs)
       = added_lines (analyze_commit_quantity xs) - deleted_lines (analyze_commit_quantity xs)"
    unfolding analyze_commit_quantity_sums by simp
  from zero one nonneg add net show ?thesis by blast
qed

theorem analyze_commit_quantity_additive_witness:
  "stats \<lparr>author_name = ''abc'', parents = [], 
           stats = Some \<lparr>insertions = 60, deletions = 10, lines = 70, files = 2\<rparr>,
           diff_first_parent = None, diff_null_tree = Some []\<rparr>
     = Some \<lparr>insertions = 60, deletions = 10, lines = 70, files = 2\<rparr>
   \<and> (0::int) \<le> 60 \<and> (0::int) \<le> 10 \<and> (0::int) \<le> 2
   \<and> analyze_commit_quantity [\<lparr>author_name = ''abc'', parents = [], 
           stats = Some \<lparr>insertions = 60, deletions = 10, lines = 70, files = 2\<rparr>,
           diff_first_parent = None, diff_null_tree = Some []\<rparr>]
       = \<lparr>commit_count = 1, added_lines = 60, deleted_lines = 10, net_lines = 50,
          files_changed = 2, total_changed_lines = 70\<rparr>
   \<and> 0 \<le> total_changed_lines (analyze_commit_quantity [\<lparr>author_name = ''abc'', parents = [], 
           stats = Some \<lparr>insertions = 60, deletions = 10, lines = 70, files = 2\<rparr>,
           diff_first_parent = None, diff_null_tree = Some []\<rparr>])"
proof -
  define s1 where "s1 = \<lparr>insertions = 60, deletions = 10, lines = 70, files = 2\<rparr>"
  define c1 where "c1 = \<lparr>author_name = ''abc'', parents = [], stats = Some s1,
           diff_first_parent = None, diff_null_tree = Some ([] :: string list)\<rparr>"
  note T = analyze_commit_quantity_additive[where xs = "[c1]" and ys = "[]" and c = c1]
  have h1: "stats c1 = Some s1" by (simp add: c1_def)
  have h2: "\<forall>c \<in> set [c1]. \<forall>s. stats c = Some s \<longrightarrow>
      0 \<le> insertions s \<and> 0 \<le> deletions s \<and> 0 \<le> files s"
    by (simp add: c1_def s1_def)
  from T h1 have "analyze_commit_quantity [c1] =
           \<lparr>commit_count = 1, added_lines = insertions s1, deleted_lines = deletions s1,
            net_lines = insertions s1 - deletions s1, files_changed = files s1,
            total_changed_lines = insertions s1 + deletions s1\<rparr>"
    by blast
  then have a: "analyze_commit_quantity [c1] = \<lparr>commit_count = 1, added_lines = 60,
      deleted_lines = 10, net_lines = 50, files_changed = 2, total_changed_lines = 70\<rparr>"
    by (simp add: s1_def)
  from T h2 have b: "0 \<le> total_changed_lines (analyze_commit_quantity [c1])"
    by blast
  have "(0::int) \<le> 60" "(0::int) \<le> 10" "(0::int) \<le> 2" by simp_all
  with h1 a b show ?thesis unfolding c1_def s1_def by (intro conjI)
qed

section \<open>Added lines\<close>

lemma startswith_plus: "startswith line ''+'' \<longleftrightarrow> (\<exists>t. line = CHR ''+'' # t)"
  by (cases line) auto

lemma added_line_kept:
  "(startswith (CHR ''+'' # l) ''+'' \<and> \<not> startswith (CHR ''+'' # l) ''+++'')
     \<longleftrightarrow> \<not> startswith l ''++''"
  by simp

lemma new_lines_iff:
  "l \<in> set (new_lines decode c)
     \<longleftrightarrow> CHR ''+'' # l \<in> set (get_commit_diff_content decode c) \<and> \<not> startswith l ''++''"
proof
  assume "l \<in> set (new_lines decode c)"
  then obtain line where line: "line \<in> set (get_commit_diff_content decode c)"
      "startswith line ''+''" "\<not> startswith line ''+++''" "l = slice_from_1 line"
    unfolding new_lines_def by auto
  from line(2) obtain t where t: "line = CHR ''+'' # t"
    unfolding startswith_plus by blast
  then have "l = t" using line(4) by (simp add: slice_from_1_def)
  then show "CHR ''+'' # l \<in> set (get_commit_diff_content decode c) \<and> \<not> startswith l ''++''"
    using line(1,3) t by simp
next
  assume a: "CHR ''+'' # l \<in> set (get_commit_diff_content decode c) \<and> \<not> startswith l ''++''"
  then have "startswith (CHR ''+'' # l) ''+'' \<and> \<not> startswith (CHR ''+'' # l) ''+++''"
    by simp
  moreover have "slice_from_1 (CHR ''+'' # l) = l"
    by (simp add: slice_from_1_def)
  ultimately show "l \<in> set (new_lines decode c)"
    unfolding new_lines_def using a by force
qed

lemma all_code_lines_append:
  "all_code_lines decode (xs @ ys) = all_code_lines decode xs @ all_code_lines decode ys"
  by (simp add: all_code_lines_def)

lemma all_code_lines_Cons:
  "all_code_lines decode (c # cs) = new_lines decode c @ all_code_lines decode cs"
  by (simp add: all_code_lines_def)

lemma failed_diff_content:
  "(if parents c \<noteq> [] then diff_first_parent c else diff_null_tree c) = None \<Longrightarrow>
     get_commit_diff_content decode c = []"
  by (simp add: get_commit_diff_content_def)

text \<open>
  Claim C4: for a commit without parents the added lines are taken from the diff against
  the empty tree, and every line of content the commit introduces is to be returned as an
  addition. The code does not do so for a line that starts with \<^verbatim>\<open>++\<close>: a root commit
  whose file holds the lines \<^verbatim>\<open>++counter;\<close> and \<^verbatim>\<open>x = 1;\<close> has the patch lines
  \<^verbatim>\<open>+++counter;\<close> and \<^verbatim>\<open>+x = 1;\<close> in its diff against the empty tree; the test for
  \<^verbatim>\<open>+++\<close>, written for the file header of a diff, removes the first, and only
  \<^verbatim>\<open>x = 1;\<close> is returned.
\<close>

theorem root_commit_content_line_dropped:
  "parents \<lparr>author_name = ''abc'', parents = [],
             stats = Some \<lparr>insertions = 2, deletions = 0, lines = 2, files = 1\<rparr>,
             diff_first_parent = None,
             diff_null_tree = Some [''@@ -0,0 +1,2 @@'' @ [CHR 0x0A] @ ''+++counter;''
                                      @ [CHR 0x0A] @ ''+x = 1;'']\<rparr> = []
   \<and> get_commit_diff_content (\<lambda>b. b)
        \<lparr>author_name = ''abc'', parents = [],
         stats = Some \<lparr>insertions = 2, deletions = 0, lines = 2, files = 1\<rparr>,
         diff_first_parent = None,
         diff_null_tree = Some [''@@ -0,0 +1,2 @@'' @ [CHR 0x0A] @ ''+++counter;''
                                  @ [CHR 0x0A] @ ''+x = 1;'']\<rparr>
       = [''@@ -0,0 +1,2 @@'', ''+++counter;'', ''+x = 1;'']
   \<and> new_lines (\<lambda>b. b)
        \<lparr>author_name = ''abc'', parents = [],
         stats = Some \<lparr>insertions = 2, deletions = 0, lines = 2, files = 1\<rparr>,
         diff_first_parent = None,
         diff_null_tree = Some [''@@ -0,0 +1,2 @@'' @ [CHR 0x0A] @ ''+++counter;''
                                  @ [CHR 0x0A] @ ''+x = 1;'']\<rparr>
       = [''x = 1;'']
   \<and> ''++counter;'' \<notin> set (new_lines (\<lambda>b. b)
        \<lparr>author_name = ''abc'', parents = [],
         stats = Some \<lparr>insertions = 2, deletions = 0, lines = 2, files = 1\<rparr>,
         diff_first_parent = None,
         diff_null_tree = Some [''@@ -0,0 +1,2 @@'' @ [CHR 0x0A] @ ''+++counter;''
                                  @ [CHR 0x0A] @ ''+x = 1;'']\<rparr>)"
  by (simp add: new_lines_def get_commit_diff_content_def slice_from_1_def)

text \<open>
  Claim C10: the issue detector is called on the added lines of the author's commits, when
  there are any, and the author's issue total is the sum of the counts it returns for them
  (plus the counts of the structural analysis of the lines that look like Python). A line
  is among the added lines iff some commit's diff content has it with a leading \<^verbatim>\<open>+\<close>, on
  a line that does not start with \<^verbatim>\<open>+++\<close>; the lines come in the order of the commits and
  of their diffs, each without its first character, so with the indentation of the source.
\<close>

theorem added_lines_fed_to_detector:
  "total_issues (analyze_author_code detect parse recursion_limit decode author commits) =
     (if all_code_lines decode commits = [] then 0
      else sum_quality_issues (detect (all_code_lines decode commits))
           + (if python_code (all_code_lines decode commits) = [] then 0
              else sum_syntax_issues
                     (analyze_python_syntax parse recursion_limit
                        (python_code (all_code_lines decode commits)))))
   \<and> (\<forall>l. l \<in> set (all_code_lines decode commits)
       \<longleftrightarrow> (\<exists>c \<in> set commits. \<exists>line \<in> set (get_commit_diff_content decode c).
              line = CHR ''+'' # l \<and> \<not> startswith line ''+++''))
   \<and> all_code_lines decode commits =
       concat (map (\<lambda>c. map (drop 1)
                          (filter (\<lambda>line. startswith line ''+'' \<and> \<not> startswith line ''+++'')
                             (get_commit_diff_content decode c)))
                 commits)"
proof -
  have call: "total_issues (analyze_author_code detect parse recursion_limit decode author commits) =
     (if all_code_lines decode commits = [] then 0
      else sum_quality_issues (detect (all_code_lines decode commits))
           + (if python_code (all_code_lines decode commits) = [] then 0
              else sum_syntax_issues
                     (analyze_python_syntax parse recursion_limit
                        (python_code (all_code_lines decode commits)))))"
    unfolding analyze_author_code_def Let_def by simp
  have fed: "l \<in> set (all_code_lines decode commits)
       \<longleftrightarrow> (\<exists>c \<in> set commits. \<exists>line \<in> set (get_commit_diff_content decode c).
              line = CHR ''+'' # l \<and> \<not> startswith line ''+++'')" for l
    unfolding all_code_lines_def by (auto simp: new_lines_iff)
  have order: "all_code_lines decode commits =
       concat (map (\<lambda>c. map (drop 1)
                          (filter (\<lambda>line. startswith line ''+'' \<and> \<not> startswith line ''+++'')
                             (get_commit_diff_content decode c)))
                 commits)"
    unfolding all_code_lines_def new_lines_def slice_from_1_def by (rule refl)
  from call fed order show ?thesis by blast
qed

theorem added_lines_fed_to_detector_witness:
  "''    def f():'' \<in> set (all_code_lines (\<lambda>b. b)
      [\<lparr>author_name = ''abc'', parents = [''9fceb02''],
        stats = Some \<lparr>insertions = 1, deletions = 1, lines = 2, files = 1\<rparr>,
        diff_first_parent = Some [''@@ -1 +1 @@'' @ [CHR 0x0A] @ ''-pass''
                                    @ [CHR 0x0A] @ ''+    def f():''],
        diff_null_tree = None\<rparr>])
   \<and> ''pass'' \<notin> set (all_code_lines (\<lambda>b. b)
      [\<lparr>author_name = ''abc'', parents = [''9fceb02''],
        stats = Some \<lparr>insertions = 1, deletions = 1, lines = 2, files = 1\<rparr>,
        diff_first_parent = Some [''@@ -1 +1 @@'' @ [CHR 0x0A] @ ''-pass''
                                    @ [CHR 0x0A] @ ''+    def f():''],
        diff_null_tree = None\<rparr>])
   \<and> all_code_lines (\<lambda>b. b)
      [\<lparr>author_name = ''abc'', parents = [''9fceb02''],
        stats = Some \<lparr>insertions = 1, deletions = 1, lines = 2, files = 1\<rparr>,
        diff_first_parent = Some [''@@ -1 +1 @@'' @ [CHR 0x0A] @ ''-pass''
                                    @ [CHR 0x0A] @ ''+    def f():''],
        diff_null_tree = None\<rparr>] = [''    def f():'']
   \<and> total_issues
        (analyze_author_code
           (\<lambda>code_lines. if code_lines = [''    def f():''] then [MissingComment \<mapsto> 5]
                         else Map.empty)
           (\<lambda>code. SyntaxError) 1000 (\<lambda>b. b) ''abc''
      [\<lparr>author_name = ''abc'', parents = [''9fceb02''],
        stats = Some \<lparr>insertions = 1, deletions = 1, lines = 2, files = 1\<rparr>,
        diff_first_parent = Some [''@@ -1 +1 @@'' @ [CHR 0x0A] @ ''-pass''
                                    @ [CHR 0x0A] @ ''+    def f():''],
        diff_null_tree = None\<rparr>]) = 6"
proof -
  define c where "c = \<lparr>author_name = ''abc'', parents = [''9fceb02''],
        stats = Some \<lparr>insertions = 1, deletions = 1, lines = 2, files = 1\<rparr>,
        diff_first_parent = Some [''@@ -1 +1 @@'' @ [CHR 0x0A] @ ''-pass''
                                    @ [CHR 0x0A] @ ''+    def f():''],
        diff_null_tree = None\<rparr>"
  define detect :: "string list \<Rightarrow> issue_type tally"
    where "detect = (\<lambda>code_lines. if code_lines = [''    def f():''] then [MissingComment \<mapsto> 5]
                         else Map.empty)"
  have content: "get_commit_diff_content (\<lambda>b. b) c
      = [''@@ -1 +1 @@'', ''-pass'', ''+    def f():'']"
    by (simp add: c_def get_commit_diff_content_def)
  note T = added_lines_fed_to_detector[of detect "\<lambda>code. SyntaxError" 1000 "\<lambda>b. b" "''abc''" "[c]"]
  note call = T[THEN conjunct1]
  note fed = T[THEN conjunct2, THEN conjunct1, rule_format]
  note order = T[THEN conjunct2, THEN conjunct2]
  have r1: "''    def f():'' \<in> set (all_code_lines (\<lambda>b. b) [c])"
    by (simp add: fed content)
  have r2: "''pass'' \<notin> set (all_code_lines (\<lambda>b. b) [c])"
    by (simp add: fed content)
  have r3: "all_code_lines (\<lambda>b. b) [c] = [''    def f():'']"
    unfolding order by (simp add: content)
  have py: "python_code [''    def f():''] = ''    def f():''"
    by (simp add: python_code_def)
  have r4: "total_issues (analyze_author_code detect (\<lambda>code. SyntaxError) 1000 (\<lambda>b. b) ''abc'' [c]) = 6"
    unfolding call r3 py
    by (simp add: detect_def sum_quality_issues_def sum_syntax_issues_def
        analyze_python_syntax_def increment_def)
  from r1 r2 r3 r4 show ?thesis unfolding c_def detect_def by (intro conjI)
qed

section \<open>Commits that cannot be read\<close>

text \<open>
  Claim C6, as stated, has a commit whose diff cannot be read contribute zero insertions,
  deletions and files. Stats and diff are read separately: a commit whose diff raises but
  whose stats read 10 insertions, 5 deletions and 1 file contributes all three, and 15
  changed lines.
\<close>

theorem diff_failure_keeps_stats_counterexample:
  "(if parents \<lparr>author_name = ''abc'', parents = [''9fceb02''],
        stats = Some \<lparr>insertions = 10, deletions = 5, lines = 15, files = 1\<rparr>,
        diff_first_parent = None, diff_null_tree = None\<rparr> \<noteq> []
    then diff_first_parent \<lparr>author_name = ''abc'', parents = [''9fceb02''],
        stats = Some \<lparr>insertions = 10, deletions = 5, lines = 15, files = 1\<rparr>,
        diff_first_parent = None, diff_null_tree = None\<rparr>
    else diff_null_tree \<lparr>author_name = ''abc'', parents = [''9fceb02''],
        stats = Some \<lparr>insertions = 10, deletions = 5, lines = 15, files = 1\<rparr>,
        diff_first_parent = None, diff_null_tree = None\<rparr>) = None
   \<and> get_commit_diff_content (\<lambda>b. b)
        \<lparr>author_name = ''abc'', parents = [''9fceb02''],
         stats = Some \<lparr>insertions = 10, deletions = 5, lines = 15, files = 1\<rparr>,
         diff_first_parent = None, diff_null_tree = None\<rparr> = []
   \<and> analyze_commit_quantity
        [\<lparr>author_name = ''abc'', parents = [''9fceb02''],
          stats = Some \<lparr>insertions = 10, deletions = 5, lines = 15, files = 1\<rparr>,
          diff_first_parent = None, diff_null_tree = None\<rparr>]
       = \<lparr>commit_count = 1, added_lines = 10, deleted_lines = 5, net_lines = 5,
          files_changed = 1, total_changed_lines = 15\<rparr>
   \<and> added_lines (analyze_commit_quantity
        [\<lparr>author_name = ''abc'', parents = [''9fceb02''],
          stats = Some \<lparr>insertions = 10, deletions = 5, lines = 15, files = 1\<rparr>,
          diff_first_parent = None, diff_null_tree = None\<rparr>]) \<noteq> 0"
  by (simp add: get_commit_diff_content_def analyze_commit_quantity_def)

text \<open>
  Claim C6, amended: a commit whose stats cannot be read adds nothing to insertions,
  deletions, net lines, files changed and total changed lines of its author (it is still
  counted as a commit); a commit whose diff cannot be read adds no lines to the author's
  added lines; in both cases the author's other commits count as they do without it. The
  analysis of an author is a total function of the outcomes of the reads, so a failed read
  does not abort it: a commit failing both reads changes the author's record in the commit
  count only.
\<close>

theorem failed_commit_contributes_nothing:
  "(stats c = None \<longrightarrow>
      analyze_commit_quantity (xs @ c # ys) =
        (analyze_commit_quantity (xs @ ys))
          \<lparr>commit_count := commit_count (analyze_commit_quantity (xs @ ys)) + 1\<rparr>)
   \<and> ((if parents c \<noteq> [] then diff_first_parent c else diff_null_tree c) = None \<longrightarrow>
        get_commit_diff_content decode c = []
      \<and> new_lines decode c = []
      \<and> all_code_lines decode (xs @ c # ys) = all_code_lines decode (xs @ ys))
   \<and> (stats c = None
        \<and> (if parents c \<noteq> [] then diff_first_parent c else diff_null_tree c) = None \<longrightarrow>
        analyze_author_code detect parse recursion_limit decode author (xs @ c # ys) =
          (analyze_author_code detect parse recursion_limit decode author (xs @ ys))
            \<lparr>commits_made :=
               commits_made (analyze_author_code detect parse recursion_limit decode author (xs @ ys)) + 1\<rparr>)"
proof -
  have q: "analyze_commit_quantity (xs @ c # ys) =
        (analyze_commit_quantity (xs @ ys))
          \<lparr>commit_count := commit_count (analyze_commit_quantity (xs @ ys)) + 1\<rparr>"
    if "stats c = None"
    unfolding analyze_commit_quantity_sums using that by simp
  have d: "get_commit_diff_content decode c = []
      \<and> new_lines decode c = []
      \<and> all_code_lines decode (xs @ c # ys) = all_code_lines decode (xs @ ys)"
    if f: "(if parents c \<noteq> [] then diff_first_parent c else diff_null_tree c) = None"
  proof -
    have e: "get_commit_diff_content decode c = []"
      using f by (rule failed_diff_content)
    then have n: "new_lines decode c = []"
      by (simp add: new_lines_def)
    then have "all_code_lines decode (xs @ c # ys) = all_code_lines decode (xs @ ys)"
      by (simp add: all_code_lines_append all_code_lines_Cons)
    with e n show ?thesis by simp
  qed
  have r: "analyze_author_code detect parse recursion_limit decode author (xs @ c # ys) =
          (analyze_author_code detect parse recursion_limit decode author (xs @ ys))
            \<lparr>commits_made :=
               commits_made (analyze_author_code detect parse recursion_limit decode author (xs @ ys)) + 1\<rparr>"
    if "stats c = None
        \<and> (if parents c \<noteq> [] then diff_first_parent c else diff_null_tree c) = None"
  proof -
    from that have q': "analyze_commit_quantity (xs @ c # ys) =
        (analyze_commit_quantity (xs @ ys))
          \<lparr>commit_count := commit_count (analyze_commit_quantity (xs @ ys)) + 1\<rparr>"
      using q by blast
    from that have a: "all_code_lines decode (xs @ c # ys) = all_code_lines decode (xs @ ys)"
      using d by blast
    show ?thesis
      unfolding analyze_author_code_def Let_def a q' by simp
  qed
  from q d r show ?thesis by blast
qed

theorem failed_commit_contributes_nothing_witness:
  "stats \<lparr>author_name = ''abc'', parents = [''9fceb02''], stats = None,
          diff_first_parent = None, diff_null_tree = None\<rparr> = None
   \<and> (if parents \<lparr>author_name = ''abc'', parents = [''9fceb02''], stats = None,
          diff_first_parent = None, diff_null_tree = None\<rparr> \<noteq> []
       then diff_first_parent \<lparr>author_name = ''abc'', parents = [''9fceb02''], stats = None,
          diff_first_parent = None, diff_null_tree = None\<rparr>
       else diff_null_tree \<lparr>author_name = ''abc'', parents = [''9fceb02''], stats = None,
          diff_first_parent = None, diff_null_tree = None\<rparr>) = None
   \<and> analyze_commit_quantity
        [\<lparr>author_name = ''abc'', parents = [],
          stats = Some \<lparr>insertions = 60, deletions = 10, lines = 70, files = 2\<rparr>,
          diff_first_parent = None,
          diff_null_tree = Some [''@@ -0,0 +1 @@'' @ [CHR 0x0A] @ ''+x = 1'']\<rparr>,
         \<lparr>author_name = ''abc'', parents = [''9fceb02''], stats = None,
          diff_first_parent = None, diff_null_tree = None\<rparr>]
       = \<lparr>commit_count = 2, added_lines = 60, deleted_lines = 10, net_lines = 50,
          files_changed = 2, total_changed_lines = 70\<rparr>
   \<and> all_code_lines (\<lambda>b. b)
        [\<lparr>author_name = ''abc'', parents = [],
          stats = Some \<lparr>insertions = 60, deletions = 10, lines = 70, files = 2\<rparr>,
          diff_first_parent = None,
          diff_null_tree = Some [''@@ -0,0 +1 @@'' @ [CHR 0x0A] @ ''+x = 1'']\<rparr>,
         \<lparr>author_name = ''abc'', parents = [''9fceb02''], stats = None,
          diff_first_parent = None, diff_null_tree = None\<rparr>]
       = [''x = 1'']
   \<and> analyze_author_code (\<lambda>code_lines. Map.empty) (\<lambda>code. OtherError) 1000 (\<lambda>b. b) ''abc''
        [\<lparr>author_name = ''abc'', parents = [],
          stats = Some \<lparr>insertions = 60, deletions = 10, lines = 70, files = 2\<rparr>,
          diff_first_parent = None,
          diff_null_tree = Some [''@@ -0,0 +1 @@'' @ [CHR 0x0A] @ ''+x = 1'']\<rparr>,
         \<lparr>author_name = ''abc'', parents = [''9fceb02''], stats = None,
          diff_first_parent = None, diff_null_tree = None\<rparr>]
       = \<lparr>contributor = ''abc'', commits_made = 2, changed_lines = 70, total_issues = 0,
          issues_per_kloc_r = 0, issue_rate_per_kloc_r = 0, quality_score_r = 100,
          quantity_score_r = 0, final_score_r = 0\<rparr>"
proof -
  define g where "g = \<lparr>author_name = ''abc'', parents = [],
          stats = Some \<lparr>insertions = 60, deletions = 10, lines = 70, files = 2\<rparr>,
          diff_first_parent = None,
          diff_null_tree = Some [''@@ -0,0 +1 @@'' @ [CHR 0x0A] @ ''+x = 1'']\<rparr>"
  define c where "c = \<lparr>author_name = ''abc'', parents = [''9fceb02''], stats = None,
          diff_first_parent = None, diff_null_tree = (None :: string list option)\<rparr>"
  note T = failed_commit_contributes_nothing[where c = c and xs = "[g]" and ys = "[]"
      and decode = "\<lambda>b. b" and detect = "\<lambda>code_lines. Map.empty"
      and parse = "\<lambda>code. OtherError" and recursion_limit = 1000 and author = "''abc''"]
  have h1: "stats c = None" by (simp add: c_def)
  have h2: "(if parents c \<noteq> [] then diff_first_parent c else diff_null_tree c) = None"
    by (simp add: c_def)
  from T h1 have "analyze_commit_quantity ([g] @ c # []) =
        (analyze_commit_quantity ([g] @ []))
          \<lparr>commit_count := commit_count (analyze_commit_quantity ([g] @ [])) + 1\<rparr>"
    by blast
  then have a: "analyze_commit_quantity [g, c]
       = \<lparr>commit_count = 2, added_lines = 60, deleted_lines = 10, net_lines = 50,
          files_changed = 2, total_changed_lines = 70\<rparr>"
    by (simp add: analyze_commit_quantity_def g_def)
  from T h2 have "all_code_lines (\<lambda>b. b) ([g] @ c # []) = all_code_lines (\<lambda>b. b) ([g] @ [])"
    by blast
  then have b: "all_code_lines (\<lambda>b. b) [g, c] = [''x = 1'']"
    by (simp add: all_code_lines_def new_lines_def get_commit_diff_content_def g_def slice_from_1_def)
  have alone: "analyze_author_code (\<lambda>code_lines. Map.empty) (\<lambda>code. OtherError) 1000 (\<lambda>b. b) ''abc'' [g]
       = \<lparr>contributor = ''abc'', commits_made = 1, changed_lines = 70, total_issues = 0,
          issues_per_kloc_r = 0, issue_rate_per_kloc_r = 0, quality_score_r = 100,
          quantity_score_r = 0, final_score_r = 0\<rparr>"
    unfolding g_def by code_simp
  from T h1 h2 have "analyze_author_code (\<lambda>code_lines. Map.empty) (\<lambda>code. OtherError) 1000 (\<lambda>b. b)
        ''abc'' ([g] @ c # []) =
      (analyze_author_code (\<lambda>code_lines. Map.empty) (\<lambda>code. OtherError) 1000 (\<lambda>b. b) ''abc'' ([g] @ []))
        \<lparr>commits_made :=
           commits_made (analyze_author_code (\<lambda>code_lines. Map.empty) (\<lambda>code. OtherError) 1000
             (\<lambda>b. b) ''abc'' ([g] @ [])) + 1\<rparr>"
    by blast
  then have r: "analyze_author_code (\<lambda>code_lines. Map.empty) (\<lambda>code. OtherError) 1000 (\<lambda>b. b)
        ''abc'' [g, c]
       = \<lparr>contributor = ''abc'', commits_made = 2, changed_lines = 70, total_issues = 0,
          issues_per_kloc_r = 0, issue_rate_per_kloc_r = 0, quality_score_r = 100,
          quantity_score_r = 0, final_score_r = 0\<rparr>"
    by (simp add: alone)
  from h1 h2 a b r show ?thesis unfolding g_def c_def by (intro conjI)
qed

section \<open>Failures of the structural analysis\<close>

lemma kind_elif_chain: "kind (elif_chain n) = IfStmt"
  by (cases n) simp_all

lemma nesting_depth_elif_chain:
  "calculate_nesting_depth frames (elif_chain n) depth =
     (if n < frames then Some (depth + int n) else None)"
proof (induction n arbitrary: frames depth)
  case 0
  then show ?case by (cases frames) simp_all
next
  case (Suc n)
  show ?case
  proof (cases frames)
    case 0
    then show ?thesis by simp
  next
    case (Suc f)
    then show ?thesis by (simp add: Suc.IH kind_elif_chain)
  qed
qed

lemma check_nodes_keeps_syntax_error:
  "fst (check_nodes frames nodes issues) SyntaxErrorIssue = issues SyntaxErrorIssue"
  by (induction nodes arbitrary: issues)
     (auto simp: increment_def Let_def split: option.splits)

lemma check_nodes_append:
  "check_nodes frames (xs @ ys) issues =
     (if snd (check_nodes frames xs issues) then check_nodes frames xs issues
      else check_nodes frames ys (fst (check_nodes frames xs issues)))"
  by (induction xs arbitrary: issues) (auto simp: Let_def split: option.splits)

lemma check_nodes_failure:
  assumes "kind node \<in> {For, While, IfStmt}" "calculate_nesting_depth frames node 0 = None"
  shows "check_nodes frames (node # rest) issues = (issues, True)"
  using assms by auto

lemma complexity_branching_function: "calculate_complexity branching_function = 11"
  by code_simp

lemma walk_deep_module:
  "\<exists>rest. walk deep_module = [deep_module, branching_function] @ elif_chain 1100 # rest"
  by (simp add: walk_def deep_module_def)

text \<open>
  Claim C8, as stated, has the analyzer return an empty result on every failure other than
  a syntax error. The \<^verbatim>\<open>try\<close> also holds the walk: for a blob that parses to a function
  of complexity 11 followed by a chain of 1100 \<^verbatim>\<open>elif\<close> branches, with room for 1000
  nested calls, the nesting-depth recursion on the chain raises \<^verbatim>\<open>RecursionError\<close> after
  the function has been counted, and the result holds that count.
\<close>

theorem walk_failure_keeps_counts_counterexample:
  "calculate_nesting_depth 1000 (elif_chain 1100) 0 = None
   \<and> analyze_python_syntax
        (\<lambda>code. if code = deep_source then Parsed deep_module else OtherError) 1000 deep_source
       = [HighComplexityFunction \<mapsto> 1]
   \<and> analyze_python_syntax
        (\<lambda>code. if code = deep_source then Parsed deep_module else OtherError) 1000 deep_source
       \<noteq> Map.empty"
proof -
  have n: "calculate_nesting_depth 1000 (elif_chain 1100) 0 = None"
    by (simp add: nesting_depth_elif_chain)
  obtain rest where w: "walk deep_module = [deep_module, branching_function] @ elif_chain 1100 # rest"
    using walk_deep_module by blast
  have k: "kind deep_module = Other" "kind branching_function = FunctionDef"
    by (simp_all add: deep_module_def branching_function_def)
  have v: "check_nodes 1000 [deep_module, branching_function] Map.empty
      = ([HighComplexityFunction \<mapsto> 1], False)"
    by (simp add: k complexity_branching_function increment_def)
  have "check_nodes 1000 (walk deep_module) Map.empty = ([HighComplexityFunction \<mapsto> 1], True)"
    unfolding w check_nodes_append v
    by (simp add: n kind_elif_chain Let_def)
  then have a: "analyze_python_syntax
        (\<lambda>code. if code = deep_source then Parsed deep_module else OtherError) 1000 deep_source
       = [HighComplexityFunction \<mapsto> 1]"
    by (simp add: analyze_python_syntax_def)
  then have "analyze_python_syntax
        (\<lambda>code. if code = deep_source then Parsed deep_module else OtherError) 1000 deep_source
       \<noteq> Map.empty"
    by simp
  with n a show ?thesis by blast
qed

text \<open>
  Claim C8, amended: when parsing the blob raises a syntax error the structural analyzer
  returns the syntax-error count 1 and no other count; when parsing fails in any other way
  it returns the empty tally; when the blob parses, the result has no syntax-error entry,
  and if the walk then fails at a node (the nesting-depth recursion on a loop or
  conditional runs out of stack) the result is the tally of the nodes visited before it.
\<close>

theorem analyze_python_syntax_failures:
  "(parse code_content = SyntaxError \<longrightarrow>
      analyze_python_syntax parse recursion_limit code_content = [SyntaxErrorIssue \<mapsto> 1])
   \<and> (parse code_content = OtherError \<longrightarrow>
      analyze_python_syntax parse recursion_limit code_content = Map.empty)
   \<and> (\<forall>tree. parse code_content = Parsed tree \<longrightarrow>
      analyze_python_syntax parse recursion_limit code_content SyntaxErrorIssue = None
      \<and> (\<forall>visited node rest.
            walk tree = visited @ node # rest
            \<and> \<not> snd (check_nodes recursion_limit visited Map.empty)
            \<and> kind node \<in> {For, While, IfStmt}
            \<and> calculate_nesting_depth recursion_limit node 0 = None
          \<longrightarrow> analyze_python_syntax parse recursion_limit code_content
                = fst (check_nodes recursion_limit visited Map.empty)))"
proof -
  have s: "analyze_python_syntax parse recursion_limit code_content = [SyntaxErrorIssue \<mapsto> 1]"
    if "parse code_content = SyntaxError"
    using that by (simp add: analyze_python_syntax_def increment_def)
  have e: "analyze_python_syntax parse recursion_limit code_content = Map.empty"
    if "parse code_content = OtherError"
    using that by (simp add: analyze_python_syntax_def)
  have p: "analyze_python_syntax parse recursion_limit code_content SyntaxErrorIssue = None"
    if "parse code_content = Parsed tree" for tree
    using that by (simp add: analyze_python_syntax_def check_nodes_keeps_syntax_error)
  have f: "analyze_python_syntax parse recursion_limit code_content
                = fst (check_nodes recursion_limit visited Map.empty)"
    if "parse code_content = Parsed tree"
      and "walk tree = visited @ node # rest
            \<and> \<not> snd (check_nodes recursion_limit visited Map.empty)
            \<and> kind node \<in> {For, While, IfStmt}
            \<and> calculate_nesting_depth recursion_limit node 0 = None"
    for tree visited node rest
  proof -
    have "check_nodes recursion_limit (node # rest) (fst (check_nodes recursion_limit visited Map.empty))
        = (fst (check_nodes recursion_limit visited Map.empty), True)"
      using that(2) by (intro check_nodes_failure) simp_all
    then have "check_nodes recursion_limit (walk tree) Map.empty
        = (fst (check_nodes recursion_limit visited Map.empty), True)"
      using that(2) by (simp add: check_nodes_append)
    then show ?thesis using that(1) by (simp add: analyze_python_syntax_def)
  qed
  from s e p f show ?thesis by blast
qed

theorem analyze_python_syntax_failures_witness:
  "analyze_python_syntax
        (\<lambda>code. if code = ''def f(:'' then SyntaxError
            else if code = deep_source then Parsed deep_module
            else OtherError) 1000 ''def f(:'' = [SyntaxErrorIssue \<mapsto> 1]
   \<and> analyze_python_syntax
        (\<lambda>code. if code = ''def f(:'' then SyntaxError
            else if code = deep_source then Parsed deep_module
            else OtherError) 1000 ''class'' = Map.empty
   \<and> analyze_python_syntax
        (\<lambda>code. if code = ''def f(:'' then SyntaxError
            else if code = deep_source then Parsed deep_module
            else OtherError) 1000 deep_source SyntaxErrorIssue = None
   \<and> analyze_python_syntax
        (\<lambda>code. if code = ''def f(:'' then SyntaxError
            else if code = deep_source then Parsed deep_module
            else OtherError) 1000 deep_source = [HighComplexityFunction \<mapsto> 1]"
proof -
  define parse where "parse = (\<lambda>code. if code = ''def f(:'' then SyntaxError
            else if code = deep_source then Parsed deep_module
            else OtherError)"
  have h1: "parse ''def f(:'' = SyntaxError" by (simp add: parse_def)
  have h2: "parse ''class'' = OtherError" by (simp add: parse_def deep_source_def)
  have h3: "parse deep_source = Parsed deep_module" by (simp add: parse_def deep_source_def)
  have a: "analyze_python_syntax parse 1000 ''def f(:'' = [SyntaxErrorIssue \<mapsto> 1]"
    using analyze_python_syntax_failures[of parse "''def f(:''" 1000] h1 by blast
  have b: "analyze_python_syntax parse 1000 ''class'' = Map.empty"
    using analyze_python_syntax_failures[of parse "''class''" 1000] h2 by blast
  note T = analyze_python_syntax_failures[of parse deep_source 1000,
      THEN conjunct2, THEN conjunct2, rule_format, OF h3]
  have c: "analyze_python_syntax parse 1000 deep_source SyntaxErrorIssue = None"
    using T by (rule conjunct1)
  obtain rest where w: "walk deep_module = [deep_module, branching_function] @ elif_chain 1100 # rest"
    using walk_deep_module by blast
  have k: "kind deep_module = Other" "kind branching_function = FunctionDef"
    by (simp_all add: deep_module_def branching_function_def)
  have v: "check_nodes 1000 [deep_module, branching_function] Map.empty
      = ([HighComplexityFunction \<mapsto> 1], False)"
    by (simp add: k complexity_branching_function increment_def)
  have n: "calculate_nesting_depth 1000 (elif_chain 1100) 0 = None"
    by (simp add: nesting_depth_elif_chain)
  have nv: "\<not> snd (check_nodes 1000 [deep_module, branching_function] Map.empty)"
    unfolding v by simp
  have kk: "kind (elif_chain 1100) \<in> {For, While, IfStmt}"
    by (simp add: kind_elif_chain)
  have "walk deep_module = [deep_module, branching_function] @ elif_chain 1100 # rest
      \<and> \<not> snd (check_nodes 1000 [deep_module, branching_function] Map.empty)
      \<and> kind (elif_chain 1100) \<in> {For, While, IfStmt}
      \<and> calculate_nesting_depth 1000 (elif_chain 1100) 0 = None"
    using w nv kk n by (intro conjI)
  then have "analyze_python_syntax parse 1000 deep_source
      = fst (check_nodes 1000 [deep_module, branching_function] Map.empty)"
    by (rule T[THEN conjunct2, rule_format])
  then have d: "analyze_python_syntax parse 1000 deep_source = [HighComplexityFunction \<mapsto> 1]"
    unfolding v by (simp only: fst_conv)
  from a b c d show ?thesis unfolding parse_def by (intro conjI)
qed

end
